theory Spec2Isabelle
  imports Main "HOL-Library.Word"
begin

section \<open>The netdev LED trigger (ledtrig-netdev.c)\<close>

text \<open>
  A shallow embedding of \<^verbatim>\<open>drivers/leds/trigger/ledtrig-netdev.c\<close>. Every function of
  the file that touches the trigger state is a HOL function from the state before the call to
  the state after it (and the value returned). The kernel services the file calls, but does
  not define, are either parameters (the record \<open>kernel\<close>) or small models of the effect
  the file relies on; each call of such a service is also appended to a trace, so that the order
  of the calls can be stated.
\<close>

subsection \<open>C strings\<close>

text \<open>
  The string functions the file calls are those of the C library, none defined in the file.
  A buffer is the list of its bytes; reading past its end gives the terminator, as the
  attribute files guarantee for the buffer of a write.
\<close>

definition NUL :: char where
  "NUL = CHR 0x00"

definition newline :: char where
  "newline = CHR 0x0A"

text \<open>The text of a C string: the bytes before the first NUL.\<close>

definition c_str :: "string \<Rightarrow> string" where
  "c_str buf = takeWhile (\<lambda>c. c \<noteq> NUL) buf"

text \<open>
  \<^verbatim>\<open>strncpy(dest, src, n)\<close>: exactly \<open>n\<close> bytes of \<open>dest\<close> are written, the text of
  \<open>src\<close> followed by NUL padding; when the text has \<open>n\<close> bytes or more no NUL is written.
  The bytes of \<open>dest\<close> from index \<open>n\<close> on are kept.
\<close>

definition strncpy :: "string \<Rightarrow> string \<Rightarrow> nat \<Rightarrow> string" where
  "strncpy dest src n = take n (c_str src @ replicate n NUL) @ drop n dest"

text \<open>
  Modelled from the spec: \<^verbatim>\<open>strcmp\<close> is not in the file. It is the byte-for-byte match of
  two names; only zero (equal) against non-zero is used by the caller.
\<close>

definition strcmp :: "string \<Rightarrow> string \<Rightarrow> int" where
  "strcmp a b = (if c_str a = c_str b then 0 else 1)"

text \<open>Whether a text begins with the given bytes, and whether they occur anywhere in it.\<close>

definition starts_with :: "string \<Rightarrow> string \<Rightarrow> bool" where
  "starts_with txt pre = (take (length pre) txt = pre)"

fun occurs_in :: "string \<Rightarrow> string \<Rightarrow> bool" where
  "occurs_in needle [] = (needle = [])"
| "occurs_in needle (h # hs) = (starts_with (h # hs) needle \<or> occurs_in needle hs)"

text \<open>
  Modelled from the spec: \<^verbatim>\<open>strstr\<close> is not in the file. It is the presence of a
  substring in the text written, used as a truth value (non-NULL or NULL).
\<close>

definition strstr :: "string \<Rightarrow> string \<Rightarrow> bool" where
  "strstr haystack needle = occurs_in (c_str needle) (c_str haystack)"

subsection \<open>The rest of the kernel\<close>

record rtnl_link_stats64 =
  rx_packets :: "64 word"
  tx_packets :: "64 word"

text \<open>
  What the file reads of a \<^verbatim>\<open>struct net_device\<close>: its name, its carrier state
  (\<^verbatim>\<open>netif_carrier_ok\<close>) and its counters (\<^verbatim>\<open>dev_get_stats\<close>).
\<close>

record net_device =
  name :: string
  carrier :: bool
  stats :: rtnl_link_stats64

text \<open>
  A \<^verbatim>\<open>struct net_device *\<close> is an address (a \<open>nat\<close>). The record \<open>kernel\<close> is what
  the file sees of the kernel at the time of one call: the devices in memory, the addresses
  registered in \<^verbatim>\<open>init_net\<close>, and the library functions \<^verbatim>\<open>kstrtoul\<close> (return code and
  parsed value), \<^verbatim>\<open>msecs_to_jiffies\<close> and \<^verbatim>\<open>jiffies_to_msecs\<close>, none of which
  is defined in the file.
\<close>

record kernel =
  netdevs :: "nat \<Rightarrow> net_device"
  init_net :: "nat list"
  kstrtoul :: "string \<Rightarrow> int \<times> nat"
  msecs_to_jiffies :: "nat \<Rightarrow> nat"
  jiffies_to_msecs :: "nat \<Rightarrow> nat"

text \<open>
  Modelled from the spec: \<^verbatim>\<open>netif_carrier_ok\<close> and \<^verbatim>\<open>dev_get_stats\<close> are not in the
  file. They are the Device Registry's \<open>isLinkUp\<close> and \<open>currentCounters\<close>: what the
  registry reports, at the time of the call, for the device at the given address.
\<close>

definition netif_carrier_ok :: "kernel \<Rightarrow> nat \<Rightarrow> bool" where
  "netif_carrier_ok K dev = carrier (netdevs K dev)"

definition dev_get_stats :: "kernel \<Rightarrow> nat \<Rightarrow> rtnl_link_stats64" where
  "dev_get_stats K dev = stats (netdevs K dev)"

text \<open>The calls the file makes into the LED core, the workqueue and the device registry.\<close>

datatype kcall =
    Led_set_brightness nat
  | Led_stop_software_blink
  | Led_blink_set_oneshot nat nat bool
  | Schedule_delayed_work nat
  | Cancel_delayed_work_sync
  | Dev_put nat
  | Dev_hold nat

text \<open>
  The kinds of event the registry delivers; \<open>NETDEV_OTHER\<close> stands for every event code
  that is not one of the six the handler names.
\<close>

datatype netdev_event =
    NETDEV_UP
  | NETDEV_DOWN
  | NETDEV_CHANGE
  | NETDEV_REGISTER
  | NETDEV_UNREGISTER
  | NETDEV_CHANGENAME
  | NETDEV_OTHER nat

text \<open>Constants of the kernel headers, with the values they have there.\<close>

definition NOTIFY_DONE :: int where
  "NOTIFY_DONE = 0"

definition EINVAL :: int where
  "EINVAL = 22"

definition IFNAMSIZ :: nat where
  "IFNAMSIZ = 16"

definition LED_OFF :: nat where
  "LED_OFF = 0"

subsection \<open>The trigger state\<close>

text \<open>
  \<^verbatim>\<open>struct led_netdev_data\<close>, with the three fields of the \<^verbatim>\<open>led_classdev\<close> it
  points to that the file reads or writes (\<open>brightness\<close>, \<open>blink_brightness\<close>,
  \<open>max_brightness\<close>). \<open>work\<close> is the delayed work: \<open>Some d\<close> when it is queued to
  run after \<open>d\<close> jiffies, \<open>None\<close> when it is not queued. \<open>calls\<close> is the trace of the
  calls made so far. The spinlock and the notifier block are left out: the model is sequential.
\<close>

record led_netdev_data =
  work :: "nat option"
  brightness :: nat
  blink_brightness :: nat
  max_brightness :: nat
  net_dev :: "nat option"
  device_name :: string
  interval :: nat
  last_activity :: "32 word"
  mode :: "64 word"
  calls :: "kcall list"

definition NETDEV_LED_LINK :: nat where
  "NETDEV_LED_LINK = 0"

definition NETDEV_LED_TX :: nat where
  "NETDEV_LED_TX = 1"

definition NETDEV_LED_RX :: nat where
  "NETDEV_LED_RX = 2"

definition NETDEV_LED_MODE_LINKUP :: nat where
  "NETDEV_LED_MODE_LINKUP = 3"

datatype netdev_led_attr = NETDEV_ATTR_LINK | NETDEV_ATTR_TX | NETDEV_ATTR_RX

text \<open>The value of an enumerator of \<^verbatim>\<open>enum netdev_led_attr\<close>.\<close>

fun attr_value :: "netdev_led_attr \<Rightarrow> nat" where
  "attr_value NETDEV_ATTR_LINK = 0"
| "attr_value NETDEV_ATTR_TX = 1"
| "attr_value NETDEV_ATTR_RX = 2"

definition test_bit :: "nat \<Rightarrow> 64 word \<Rightarrow> bool" where
  "test_bit nr addr = bit addr nr"

definition set_bit_ul :: "nat \<Rightarrow> 64 word \<Rightarrow> 64 word" where
  "set_bit_ul nr addr = set_bit nr addr"

definition clear_bit :: "nat \<Rightarrow> 64 word \<Rightarrow> 64 word" where
  "clear_bit nr addr = unset_bit nr addr"

subsection \<open>LED core, workqueue, device references\<close>

text \<open>
  Modelled from the spec: the LED core's \<^verbatim>\<open>led_set_brightness\<close>,
  \<^verbatim>\<open>led_stop_software_blink\<close> and \<^verbatim>\<open>led_blink_set_oneshot\<close> are not in the file.
  They are the Indicator Port: \<open>setLevel\<close> makes the level the current brightness, the two
  blink calls only start and stop a timed pulse.
\<close>

definition led_set_brightness :: "nat \<Rightarrow> led_netdev_data \<Rightarrow> led_netdev_data" where
  "led_set_brightness v s = s\<lparr>brightness := v, calls := calls s @ [Led_set_brightness v]\<rparr>"

definition led_stop_software_blink :: "led_netdev_data \<Rightarrow> led_netdev_data" where
  "led_stop_software_blink s = s\<lparr>calls := calls s @ [Led_stop_software_blink]\<rparr>"

definition led_blink_set_oneshot ::
  "nat \<Rightarrow> nat \<Rightarrow> bool \<Rightarrow> led_netdev_data \<Rightarrow> led_netdev_data" where
  "led_blink_set_oneshot delay_on delay_off invert s =
     s\<lparr>calls := calls s @ [Led_blink_set_oneshot delay_on delay_off invert]\<rparr>"

text \<open>
  Modelled from the spec: the workqueue's \<^verbatim>\<open>schedule_delayed_work\<close> and
  \<^verbatim>\<open>cancel_delayed_work_sync\<close> are not in the file. They are the poll task handle:
  scheduling makes the task pending with the given delay, cancelling leaves no task pending.
\<close>

definition schedule_delayed_work :: "nat \<Rightarrow> led_netdev_data \<Rightarrow> led_netdev_data" where
  "schedule_delayed_work delay s =
     s\<lparr>work := Some delay, calls := calls s @ [Schedule_delayed_work delay]\<rparr>"

definition cancel_delayed_work_sync :: "led_netdev_data \<Rightarrow> led_netdev_data" where
  "cancel_delayed_work_sync s = s\<lparr>work := None, calls := calls s @ [Cancel_delayed_work_sync]\<rparr>"

text \<open>
  Modelled from the spec: \<^verbatim>\<open>dev_put\<close>, \<^verbatim>\<open>dev_hold\<close> and
  \<^verbatim>\<open>dev_get_by_name\<close> are not in the file. They release and acquire the
  reference-counted handle; here each is recorded in the trace. \<^verbatim>\<open>dev_get_by_name\<close> is
  the registry's \<open>lookupByName\<close>: the first device registered in \<^verbatim>\<open>init_net\<close> with
  that name, with a reference taken on it, or NULL.
\<close>

definition dev_put :: "nat \<Rightarrow> led_netdev_data \<Rightarrow> led_netdev_data" where
  "dev_put dev s = s\<lparr>calls := calls s @ [Dev_put dev]\<rparr>"

definition dev_hold :: "nat \<Rightarrow> led_netdev_data \<Rightarrow> led_netdev_data" where
  "dev_hold dev s = s\<lparr>calls := calls s @ [Dev_hold dev]\<rparr>"

definition dev_get_by_name ::
  "kernel \<Rightarrow> string \<Rightarrow> led_netdev_data \<Rightarrow> nat option \<times> led_netdev_data" where
  "dev_get_by_name K nm s =
     (case find (\<lambda>p. c_str (name (netdevs K p)) = c_str nm) (init_net K) of
        None \<Rightarrow> (None, s)
      | Some p \<Rightarrow> (Some p, dev_hold p s))"

subsection \<open>The functions of the file\<close>

text \<open>
  Each function below follows the function of the same name in the file, statement by
  statement; the intermediate states \<open>s1\<close>, \<open>s2\<close>, ... are the state after each
  statement. The attribute functions take the trigger state in place of the device pointer
  they reach it through, and return the new state with the value returned.
\<close>

definition set_baseline_state :: "led_netdev_data \<Rightarrow> led_netdev_data" where
  "set_baseline_state trigger_data =
     (let current_brightness = brightness trigger_data;
          s1 = (if current_brightness \<noteq> 0
                then trigger_data\<lparr>blink_brightness := current_brightness\<rparr>
                else trigger_data);
          s2 = (if blink_brightness s1 = 0
                then s1\<lparr>blink_brightness := max_brightness s1\<rparr>
                else s1)
      in if \<not> test_bit NETDEV_LED_MODE_LINKUP (mode s2)
         then led_set_brightness LED_OFF s2
         else
           (let s3 = (if test_bit NETDEV_LED_LINK (mode s2)
                      then led_set_brightness (blink_brightness s2) s2
                      else led_set_brightness LED_OFF s2)
            in if test_bit NETDEV_LED_TX (mode s3) \<or> test_bit NETDEV_LED_RX (mode s3)
               then schedule_delayed_work 0 s3
               else s3))"

definition device_name_store ::
  "kernel \<Rightarrow> led_netdev_data \<Rightarrow> string \<Rightarrow> nat \<Rightarrow> led_netdev_data \<times> int" where
  "device_name_store K trigger_data buf sz =
     (if sz \<ge> IFNAMSIZ then (trigger_data, - EINVAL)
      else
        (let s1 = cancel_delayed_work_sync trigger_data;
             s2 = (case net_dev s1 of
                     Some d \<Rightarrow> (dev_put d s1)\<lparr>net_dev := None\<rparr>
                   | None \<Rightarrow> s1);
             copied = strncpy (device_name s2) buf sz;
             nm = (if sz > 0 \<and> copied ! (sz - 1) = newline
                   then copied[sz - 1 := NUL]
                   else copied);
             s3 = s2\<lparr>device_name := nm\<rparr>;
             s4 = (if device_name s3 ! 0 \<noteq> NUL
                   then (case dev_get_by_name K (device_name s3) s3 of
                           (d, s') \<Rightarrow> s'\<lparr>net_dev := d\<rparr>)
                   else s3);
             s5 = s4\<lparr>mode := clear_bit NETDEV_LED_MODE_LINKUP (mode s4)\<rparr>;
             s6 = (case net_dev s5 of
                     Some d \<Rightarrow>
                       (if netif_carrier_ok K d
                        then s5\<lparr>mode := set_bit_ul NETDEV_LED_MODE_LINKUP (mode s5)\<rparr>
                        else s5)
                   | None \<Rightarrow> s5);
             s7 = s6\<lparr>last_activity := 0\<rparr>
         in (set_baseline_state s7, int sz)))"

text \<open>
  The \<^verbatim>\<open>default: return -EINVAL\<close> of the two switches over \<^verbatim>\<open>enum netdev_led_attr\<close>
  has no branch here: the type has the three enumerators only.
\<close>

fun attr_bit :: "netdev_led_attr \<Rightarrow> nat" where
  "attr_bit NETDEV_ATTR_LINK = NETDEV_LED_LINK"
| "attr_bit NETDEV_ATTR_TX = NETDEV_LED_TX"
| "attr_bit NETDEV_ATTR_RX = NETDEV_LED_RX"

definition netdev_led_attr_store ::
  "kernel \<Rightarrow> led_netdev_data \<Rightarrow> string \<Rightarrow> nat \<Rightarrow> netdev_led_attr \<Rightarrow> led_netdev_data \<times> int" where
  "netdev_led_attr_store K trigger_data buf sz attr =
     (case kstrtoul K buf of
        (ret, state) \<Rightarrow>
          if ret \<noteq> 0 then (trigger_data, ret)
          else
            (let bit = attr_bit attr;
                 s1 = cancel_delayed_work_sync trigger_data;
                 s2 = (if state \<noteq> 0
                       then s1\<lparr>mode := set_bit_ul bit (mode s1)\<rparr>
                       else s1\<lparr>mode := clear_bit bit (mode s1)\<rparr>)
             in (set_baseline_state s2, int sz)))"

definition mode_show :: "led_netdev_data \<Rightarrow> string" where
  "mode_show trigger_data =
     (if test_bit (attr_value NETDEV_ATTR_LINK) (mode trigger_data) then ''link'' else '''')
     @ '' '' @
     (if test_bit (attr_value NETDEV_ATTR_TX) (mode trigger_data) then ''tx'' else '''')
     @ '' '' @
     (if test_bit (attr_value NETDEV_ATTR_RX) (mode trigger_data) then ''rx'' else '''')
     @ [newline]"

definition mode_store ::
  "kernel \<Rightarrow> led_netdev_data \<Rightarrow> string \<Rightarrow> nat \<Rightarrow> led_netdev_data \<times> int" where
  "mode_store K trigger_data buf sz =
     (let s1 = (if strstr buf ''link''
                then fst (netdev_led_attr_store K trigger_data ''1'' sz NETDEV_ATTR_LINK)
                else fst (netdev_led_attr_store K trigger_data ''0'' sz NETDEV_ATTR_LINK));
          s2 = (if strstr buf ''tx''
                then fst (netdev_led_attr_store K s1 ''1'' sz NETDEV_ATTR_TX)
                else fst (netdev_led_attr_store K s1 ''0'' sz NETDEV_ATTR_TX));
          s3 = (if strstr buf ''rx''
                then fst (netdev_led_attr_store K s2 ''1'' sz NETDEV_ATTR_RX)
                else fst (netdev_led_attr_store K s2 ''0'' sz NETDEV_ATTR_RX))
      in (s3, int sz))"

definition interval_store ::
  "kernel \<Rightarrow> led_netdev_data \<Rightarrow> string \<Rightarrow> nat \<Rightarrow> led_netdev_data \<times> int" where
  "interval_store K trigger_data buf sz =
     (case kstrtoul K buf of
        (ret, value) \<Rightarrow>
          if ret \<noteq> 0 then (trigger_data, ret)
          else if value \<ge> 5 \<and> value \<le> 10000
          then
            (let s1 = cancel_delayed_work_sync trigger_data;
                 s2 = s1\<lparr>interval := msecs_to_jiffies K value\<rparr>
             in (set_baseline_state s2, int sz))
          else (trigger_data, int sz))"

definition handled_event :: "netdev_event \<Rightarrow> bool" where
  "handled_event evt =
     (evt = NETDEV_UP \<or> evt = NETDEV_DOWN \<or> evt = NETDEV_CHANGE \<or> evt = NETDEV_REGISTER
      \<or> evt = NETDEV_UNREGISTER \<or> evt = NETDEV_CHANGENAME)"

definition netdev_trig_notify ::
  "kernel \<Rightarrow> led_netdev_data \<Rightarrow> netdev_event \<Rightarrow> nat \<Rightarrow> led_netdev_data \<times> int" where
  "netdev_trig_notify K trigger_data evt dev =
     (if evt \<noteq> NETDEV_UP \<and> evt \<noteq> NETDEV_DOWN \<and> evt \<noteq> NETDEV_CHANGE
         \<and> evt \<noteq> NETDEV_REGISTER \<and> evt \<noteq> NETDEV_UNREGISTER \<and> evt \<noteq> NETDEV_CHANGENAME
      then (trigger_data, NOTIFY_DONE)
      else if strcmp (name (netdevs K dev)) (device_name trigger_data) \<noteq> 0
      then (trigger_data, NOTIFY_DONE)
      else
        (let s1 = cancel_delayed_work_sync trigger_data;
             s2 = s1\<lparr>mode := clear_bit NETDEV_LED_MODE_LINKUP (mode s1)\<rparr>;
             s3 = (case evt of
                     NETDEV_REGISTER \<Rightarrow>
                       (let a = (case net_dev s2 of Some d \<Rightarrow> dev_put d s2 | None \<Rightarrow> s2)
                        in (dev_hold dev a)\<lparr>net_dev := Some dev\<rparr>)
                   | NETDEV_CHANGENAME \<Rightarrow>
                       (case net_dev s2 of
                          Some d \<Rightarrow> (dev_put d s2)\<lparr>net_dev := None\<rparr>
                        | None \<Rightarrow> s2)
                   | NETDEV_UNREGISTER \<Rightarrow>
                       (case net_dev s2 of
                          Some d \<Rightarrow> (dev_put d s2)\<lparr>net_dev := None\<rparr>
                        | None \<Rightarrow> s2)
                   | NETDEV_UP \<Rightarrow>
                       (if netif_carrier_ok K dev
                        then s2\<lparr>mode := set_bit_ul NETDEV_LED_MODE_LINKUP (mode s2)\<rparr>
                        else s2)
                   | NETDEV_CHANGE \<Rightarrow>
                       (if netif_carrier_ok K dev
                        then s2\<lparr>mode := set_bit_ul NETDEV_LED_MODE_LINKUP (mode s2)\<rparr>
                        else s2)
                   | _ \<Rightarrow> s2)
         in (set_baseline_state s3, NOTIFY_DONE)))"

text \<open>
  \<^verbatim>\<open>new_activity\<close> is an \<^verbatim>\<open>unsigned int\<close>: the sum of the selected 64-bit counters,
  cut to its low 32 bits by the assignment.
\<close>

definition new_activity_of :: "64 word \<Rightarrow> rtnl_link_stats64 \<Rightarrow> 32 word" where
  "new_activity_of m dev_stats =
     ucast ((if test_bit NETDEV_LED_TX m then tx_packets dev_stats else 0)
            + (if test_bit NETDEV_LED_RX m then rx_packets dev_stats else 0))"

definition netdev_trig_work :: "kernel \<Rightarrow> led_netdev_data \<Rightarrow> led_netdev_data" where
  "netdev_trig_work K trigger_data =
     (case net_dev trigger_data of
        None \<Rightarrow> led_set_brightness LED_OFF trigger_data
      | Some d \<Rightarrow>
          if \<not> test_bit NETDEV_LED_TX (mode trigger_data)
             \<and> \<not> test_bit NETDEV_LED_RX (mode trigger_data)
          then trigger_data
          else
            (let dev_stats = dev_get_stats K d;
                 new_activity = new_activity_of (mode trigger_data) dev_stats;
                 s1 = (if last_activity trigger_data \<noteq> new_activity
                       then
                         (let a = led_stop_software_blink trigger_data;
                              invert = test_bit NETDEV_LED_LINK (mode a);
                              interval_ms = jiffies_to_msecs K (interval a);
                              b = led_blink_set_oneshot interval_ms interval_ms invert a
                          in b\<lparr>last_activity := new_activity\<rparr>)
                       else trigger_data)
             in schedule_delayed_work (interval s1 * 2) s1))"

text \<open>
  \<^verbatim>\<open>netdev_trig_activate\<close>: the state it installs for a LED whose class device has the
  given brightness fields. \<open>alloc_ok\<close> says whether \<^verbatim>\<open>kzalloc\<close> succeeded and \<open>rc\<close> is
  the first non-zero return code of the attribute and notifier registrations (0 when all
  succeed); on either failure no trigger state is left.
\<close>

definition netdev_trig_activate ::
  "kernel \<Rightarrow> nat \<Rightarrow> nat \<Rightarrow> nat \<Rightarrow> bool \<Rightarrow> int \<Rightarrow> led_netdev_data option" where
  "netdev_trig_activate K b bb mb alloc_ok rc =
     (if \<not> alloc_ok then None
      else if rc \<noteq> 0 then None
      else Some \<lparr>work = None, brightness = b, blink_brightness = bb, max_brightness = mb,
                 net_dev = None, device_name = replicate IFNAMSIZ NUL,
                 interval = msecs_to_jiffies K 50, last_activity = 0,
                 mode = set_bit_ul NETDEV_LED_LINK 0, calls = []\<rparr>)"

subsection \<open>Reading the state\<close>

text \<open>The four bits of \<open>mode\<close>, under the names the specification gives them.\<close>

definition linkIsUp :: "led_netdev_data \<Rightarrow> bool" where
  "linkIsUp s = test_bit NETDEV_LED_MODE_LINKUP (mode s)"

definition monitorLink :: "led_netdev_data \<Rightarrow> bool" where
  "monitorLink s = test_bit NETDEV_LED_LINK (mode s)"

definition monitorTx :: "led_netdev_data \<Rightarrow> bool" where
  "monitorTx s = test_bit NETDEV_LED_TX (mode s)"

definition monitorRx :: "led_netdev_data \<Rightarrow> bool" where
  "monitorRx s = test_bit NETDEV_LED_RX (mode s)"

text \<open>
  The pulse brightness the Reconciler settles on: the current brightness when it is not zero,
  else the remembered one when it is not zero, else the maximum.
\<close>

definition pulse_brightness :: "led_netdev_data \<Rightarrow> nat" where
  "pulse_brightness s =
     (if brightness s \<noteq> 0 then brightness s
      else if blink_brightness s \<noteq> 0 then blink_brightness s
      else max_brightness s)"

text \<open>The poll interval in milliseconds, as \<^verbatim>\<open>interval_show\<close> converts it for printing.\<close>

definition pollIntervalMs :: "kernel \<Rightarrow> led_netdev_data \<Rightarrow> nat" where
  "pollIntervalMs K s = jiffies_to_msecs K (interval s)"

text \<open>The sum of the monitored packet counters, as a number without any width.\<close>

definition counter_sum :: "led_netdev_data \<Rightarrow> rtnl_link_stats64 \<Rightarrow> nat" where
  "counter_sum s st =
     (if monitorTx s then unat (tx_packets st) else 0)
     + (if monitorRx s then unat (rx_packets st) else 0)"

subsection \<open>Sequences of operations\<close>

text \<open>
  One operation on the trigger: a write to one of the attribute files, a notification from the
  device registry, or the delayed work running once it is due. Each comes with the kernel as it
  is at that moment. The workqueue takes the work off the queue before it runs it.
\<close>

datatype operation =
    Write_device_name string nat
  | Write_attr netdev_led_attr string nat
  | Write_mode string nat
  | Write_interval string nat
  | Notify netdev_event nat
  | Work_runs

fun step :: "led_netdev_data \<Rightarrow> kernel \<times> operation \<Rightarrow> led_netdev_data" where
  "step s (K, Write_device_name buf sz) = fst (device_name_store K s buf sz)"
| "step s (K, Write_attr attr buf sz) = fst (netdev_led_attr_store K s buf sz attr)"
| "step s (K, Write_mode buf sz) = fst (mode_store K s buf sz)"
| "step s (K, Write_interval buf sz) = fst (interval_store K s buf sz)"
| "step s (K, Notify evt dev) = fst (netdev_trig_notify K s evt dev)"
| "step s (K, Work_runs) =
     (if work s = None then s else netdev_trig_work K (s\<lparr>work := None\<rparr>))"

definition run :: "led_netdev_data \<Rightarrow> (kernel \<times> operation) list \<Rightarrow> led_netdev_data" where
  "run s ops = foldl step s ops"

subsection \<open>The notification handler and the mode file, in the specification's words\<close>

text \<open>
  The state a matching event leaves for the Reconciler: the poll task cancelled, \<open>linkIsUp\<close>
  cleared and set again only on UP or CHANGE with carrier, the handle replaced on REGISTER and
  dropped on RENAME or UNREGISTER, each release and acquisition recorded.
\<close>

definition released :: "led_netdev_data \<Rightarrow> kcall list" where
  "released s = (case net_dev s of Some d \<Rightarrow> [Dev_put d] | None \<Rightarrow> [])"

definition after_event ::
  "kernel \<Rightarrow> led_netdev_data \<Rightarrow> netdev_event \<Rightarrow> nat \<Rightarrow> led_netdev_data" where
  "after_event K s evt dev =
     s\<lparr>work := None,
       net_dev :=
         (if evt = NETDEV_REGISTER then Some dev
          else if evt = NETDEV_CHANGENAME \<or> evt = NETDEV_UNREGISTER then None
          else net_dev s),
       mode :=
         (if (evt = NETDEV_UP \<or> evt = NETDEV_CHANGE) \<and> netif_carrier_ok K dev
          then set_bit_ul NETDEV_LED_MODE_LINKUP (clear_bit NETDEV_LED_MODE_LINKUP (mode s))
          else clear_bit NETDEV_LED_MODE_LINKUP (mode s)),
       calls :=
         calls s @ [Cancel_delayed_work_sync]
         @ (if evt = NETDEV_REGISTER then released s @ [Dev_hold dev]
            else if evt = NETDEV_CHANGENAME \<or> evt = NETDEV_UNREGISTER then released s
            else [])\<rparr>"

text \<open>The tokens of the flags that are set, and a list of tokens joined by single spaces.\<close>

definition mode_tokens :: "led_netdev_data \<Rightarrow> string list" where
  "mode_tokens s =
     (if monitorLink s then [''link''] else [])
     @ (if monitorTx s then [''tx''] else [])
     @ (if monitorRx s then [''rx''] else [])"

fun space_joined :: "string list \<Rightarrow> string" where
  "space_joined [] = []"
| "space_joined [t] = t"
| "space_joined (t # u # ts) = t @ '' '' @ space_joined (u # ts)"

text \<open>The words of a text: the maximal runs of bytes that are neither a space nor a newline.\<close>

fun split_words :: "string \<Rightarrow> string \<Rightarrow> string list" where
  "split_words acc [] = (if acc = [] then [] else [acc])"
| "split_words acc (c # cs) =
     (if c = CHR '' '' \<or> c = newline
      then (if acc = [] then [] else [acc]) @ split_words [] cs
      else split_words (acc @ [c]) cs)"

definition words_of :: "string \<Rightarrow> string list" where
  "words_of txt = split_words [] txt"

text \<open>
  A device-name write that names no device: at least one byte is written, and either the first
  byte is the terminator or the one byte written is a newline.
\<close>

definition empty_name_write :: "string \<Rightarrow> nat \<Rightarrow> bool" where
  "empty_name_write buf sz =
     (0 < sz \<and> sz < IFNAMSIZ \<and> (c_str buf = [] \<or> (sz = 1 \<and> take 1 (c_str buf) = [newline])))"

subsection \<open>Sample kernels and states\<close>

text \<open>
  A parser for the few texts the examples write; \<^verbatim>\<open>-EINVAL\<close> for anything else.
\<close>

definition parse_sample :: "string \<Rightarrow> int \<times> nat" where
  "parse_sample txt =
     (if txt = ''0'' then (0, 0)
      else if txt = ''1'' then (0, 1)
      else if txt = ''3'' then (0, 3)
      else if txt = ''5'' then (0, 5)
      else if txt = ''200'' then (0, 200)
      else if txt = ''50000'' then (0, 50000)
      else (- EINVAL, 0))"

text \<open>
  A kernel with HZ = 250 in which the device at address 1 is registered as \<open>eth0\<close>, with
  carrier, having sent 5 packets and received 10.
\<close>

definition kernel_eth0 :: kernel where
  "kernel_eth0 =
     \<lparr>netdevs = (\<lambda>p. \<lparr>name = ''eth0'', carrier = True,
                        stats = \<lparr>rx_packets = 10, tx_packets = 5\<rparr>\<rparr>),
      init_net = [1],
      kstrtoul = parse_sample,
      msecs_to_jiffies = (\<lambda>m. (m + 3) div 4),
      jiffies_to_msecs = (\<lambda>j. 4 * j)\<rparr>"

text \<open>The same kernel after 7 more packets were sent, and after \<open>2 ^ 32\<close> more were.\<close>

definition kernel_eth0_later :: kernel where
  "kernel_eth0_later =
     kernel_eth0\<lparr>netdevs := (\<lambda>p. \<lparr>name = ''eth0'', carrier = True,
                        stats = \<lparr>rx_packets = 10, tx_packets = 12\<rparr>\<rparr>)\<rparr>"

definition kernel_eth0_wrapped :: kernel where
  "kernel_eth0_wrapped =
     kernel_eth0\<lparr>netdevs := (\<lambda>p. \<lparr>name = ''eth0'', carrier = True,
                        stats = \<lparr>rx_packets = 10, tx_packets = 4294967301\<rparr>\<rparr>)\<rparr>"

text \<open>The kernel before: the device at address 1 is still called \<open>wan\<close> and has no carrier.\<close>

definition kernel_wan :: kernel where
  "kernel_wan =
     kernel_eth0\<lparr>netdevs := (\<lambda>p. \<lparr>name = ''wan'', carrier = False,
                        stats = \<lparr>rx_packets = 0, tx_packets = 0\<rparr>\<rparr>)\<rparr>"

text \<open>The state right after activation on a LED that is off, with maximum brightness 255.\<close>

definition st_fresh :: led_netdev_data where
  "st_fresh =
     \<lparr>work = None, brightness = 0, blink_brightness = 0, max_brightness = 255,
      net_dev = None, device_name = replicate IFNAMSIZ NUL, interval = 13,
      last_activity = 0, mode = set_bit_ul NETDEV_LED_LINK 0, calls = []\<rparr>"

text \<open>
  A state bound to \<open>eth0\<close> (address 1) with link up, monitoring link and tx, whose last
  poll saw 5 packets.
\<close>

definition st_linked :: led_netdev_data where
  "st_linked =
     \<lparr>work = None, brightness = 0, blink_brightness = 0, max_brightness = 255,
      net_dev = Some 1, device_name = ''eth0'' @ replicate 12 NUL, interval = 13,
      last_activity = 5,
      mode = set_bit_ul NETDEV_LED_MODE_LINKUP
               (set_bit_ul NETDEV_LED_TX (set_bit_ul NETDEV_LED_LINK 0)),
      calls = []\<rparr>"

text \<open>A state in which only rx is monitored.\<close>

definition st_rx_only :: led_netdev_data where
  "st_rx_only = st_fresh\<lparr>mode := set_bit_ul NETDEV_LED_RX 0\<rparr>"

text \<open>
  A sequence of operations: the name \<open>eth0\<close> is written while no device has that name,
  the tx flag is switched on, the device at address 1 is renamed to \<open>eth0\<close>, and its
  carrier comes up.
\<close>

definition rename_then_carrier :: "(kernel \<times> operation) list" where
  "rename_then_carrier =
     [(kernel_wan, Write_device_name (''eth0'' @ [newline]) 5),
      (kernel_wan, Write_attr NETDEV_ATTR_TX ''1'' 1),
      (kernel_eth0, Notify NETDEV_CHANGENAME 1),
      (kernel_eth0, Notify NETDEV_CHANGE 1)]"

subsection \<open>The invariant of the unbound controller\<close>

text \<open>
  With no handle held, the link flag is clear, the output is off and no poll task is pending.
\<close>

definition unbound_invariant :: "led_netdev_data \<Rightarrow> bool" where
  "unbound_invariant s =
     (if net_dev s = None
      then \<not> linkIsUp s \<and> brightness s = LED_OFF \<and> work s = None
      else True)"

text \<open>
  The one kind of step that can break it: an UP or CHANGE event for the configured name, for
  a device with carrier, while no handle is held.
\<close>

fun link_event_unbound :: "led_netdev_data \<Rightarrow> kernel \<times> operation \<Rightarrow> bool" where
  "link_event_unbound s (K, Notify evt dev) =
     ((evt = NETDEV_UP \<or> evt = NETDEV_CHANGE) \<and> net_dev s = None \<and> netif_carrier_ok K dev
      \<and> c_str (name (netdevs K dev)) = c_str (device_name s))"
| "link_event_unbound s (K, _) = False"

section \<open>Auxiliary facts\<close>

subsection \<open>Bits and the Reconciler\<close>

lemma test_bit_set_bit_ul:
  "nr < 64 \<Longrightarrow> test_bit m (set_bit_ul nr w) = (m = nr \<or> test_bit m w)"
  by (auto simp: test_bit_def set_bit_ul_def bit_set_bit_iff)

lemma test_bit_clear_bit:
  "test_bit m (clear_bit nr w) = (m \<noteq> nr \<and> test_bit m w)"
  by (auto simp: test_bit_def clear_bit_def bit_unset_bit_iff)

lemma test_bit_zero: "test_bit m 0 = False"
  by (simp add: test_bit_def)

lemmas test_bit_simps = test_bit_set_bit_ul test_bit_clear_bit test_bit_zero

lemmas bit_nr_defs =
  NETDEV_LED_LINK_def NETDEV_LED_TX_def NETDEV_LED_RX_def NETDEV_LED_MODE_LINKUP_def

lemmas flag_defs = linkIsUp_def monitorLink_def monitorTx_def monitorRx_def

lemmas port_defs =
  led_set_brightness_def schedule_delayed_work_def cancel_delayed_work_sync_def
  led_stop_software_blink_def led_blink_set_oneshot_def dev_put_def dev_hold_def

lemma sbs_mode: "mode (set_baseline_state s) = mode s"
  by (simp add: set_baseline_state_def Let_def port_defs)

lemma sbs_fields:
  "net_dev (set_baseline_state s) = net_dev s"
  "device_name (set_baseline_state s) = device_name s"
  "interval (set_baseline_state s) = interval s"
  "last_activity (set_baseline_state s) = last_activity s"
  "max_brightness (set_baseline_state s) = max_brightness s"
  by (simp_all add: set_baseline_state_def Let_def port_defs)

lemma sbs_flags:
  "linkIsUp (set_baseline_state s) = linkIsUp s"
  "monitorLink (set_baseline_state s) = monitorLink s"
  "monitorTx (set_baseline_state s) = monitorTx s"
  "monitorRx (set_baseline_state s) = monitorRx s"
  by (simp_all add: flag_defs sbs_mode)

lemma sbs_blink_brightness:
  "blink_brightness (set_baseline_state s) = pulse_brightness s"
  by (simp add: set_baseline_state_def Let_def port_defs pulse_brightness_def)

lemma sbs_brightness:
  "brightness (set_baseline_state s) =
     (if linkIsUp s \<and> monitorLink s then pulse_brightness s else LED_OFF)"
  by (simp add: set_baseline_state_def Let_def port_defs pulse_brightness_def flag_defs)

lemma sbs_work:
  "work (set_baseline_state s) =
     (if linkIsUp s \<and> (monitorTx s \<or> monitorRx s) then Some 0 else work s)"
  by (simp add: set_baseline_state_def Let_def port_defs flag_defs)

lemma sbs_calls:
  "calls (set_baseline_state s) =
     calls s
     @ [Led_set_brightness (if linkIsUp s \<and> monitorLink s then pulse_brightness s else LED_OFF)]
     @ (if linkIsUp s \<and> (monitorTx s \<or> monitorRx s) then [Schedule_delayed_work 0] else [])"
  by (simp add: set_baseline_state_def Let_def port_defs pulse_brightness_def flag_defs)

lemma pulse_brightness_sbs:
  "pulse_brightness (set_baseline_state s) = pulse_brightness s"
  by (auto simp add: sbs_brightness sbs_blink_brightness sbs_fields pulse_brightness_def
      LED_OFF_def)

lemma st_linked_flags:
  "linkIsUp st_linked" "monitorLink st_linked" "monitorTx st_linked" "\<not> monitorRx st_linked"
  by (simp_all add: flag_defs st_linked_def bit_nr_defs test_bit_simps)

lemma st_fresh_flags:
  "\<not> linkIsUp st_fresh" "monitorLink st_fresh" "\<not> monitorTx st_fresh" "\<not> monitorRx st_fresh"
  by (simp_all add: flag_defs st_fresh_def bit_nr_defs test_bit_simps)

subsection \<open>The activity count\<close>


lemma new_activity_mod:
  "unat (new_activity_of (mode s) st) = counter_sum s st mod 2 ^ 32"
proof -
  have "unat (ucast (a + b :: 64 word) :: 32 word) = (unat a + unat b) mod 2 ^ 32" for a b
  proof -
    have "unat (ucast (a + b) :: 32 word) = unat (a + b) mod 2 ^ 32"
      by (simp add: unsigned_ucast_eq take_bit_eq_mod)
    also have "\<dots> = ((unat a + unat b) mod 2 ^ 64) mod 2 ^ 32"
      by (simp add: unat_word_ariths)
    also have "\<dots> = (unat a + unat b) mod 2 ^ 32"
      by (rule mod_mod_cancel) simp
    finally show ?thesis .
  qed
  then show ?thesis
    by (simp add: new_activity_of_def counter_sum_def flag_defs)
qed

lemma work_bound:
  assumes "net_dev s = Some d" and "monitorTx s \<or> monitorRx s"
  shows "netdev_trig_work K s =
     (let n = new_activity_of (mode s) (dev_get_stats K d);
          ms = pollIntervalMs K s
      in if last_activity s \<noteq> n
         then s\<lparr>work := Some (interval s * 2), last_activity := n,
                calls := calls s @ [Led_stop_software_blink,
                                    Led_blink_set_oneshot ms ms (monitorLink s),
                                    Schedule_delayed_work (interval s * 2)]\<rparr>
         else s\<lparr>work := Some (interval s * 2),
                calls := calls s @ [Schedule_delayed_work (interval s * 2)]\<rparr>)"
  using assms
  by (auto simp: netdev_trig_work_def Let_def port_defs flag_defs pollIntervalMs_def)


lemma cong_activity:
  assumes "(2 ^ 32 :: int) dvd int (counter_sum s st2) - int (counter_sum s st1)"
  shows "new_activity_of (mode s) st2 = new_activity_of (mode s) st1"
proof -
  from assms have "int (counter_sum s st2) mod 2 ^ 32 = int (counter_sum s st1) mod 2 ^ 32"
    by (simp add: mod_eq_dvd_iff)
  then have "int (counter_sum s st2 mod 2 ^ 32) = int (counter_sum s st1 mod 2 ^ 32)"
    by (simp add: zmod_int)
  then have "counter_sum s st2 mod 2 ^ 32 = counter_sum s st1 mod 2 ^ 32"
    by (simp only: of_nat_eq_iff)
  then have "unat (new_activity_of (mode s) st2) = unat (new_activity_of (mode s) st1)"
    by (simp only: new_activity_mod)
  then show ?thesis
    by (simp add: word_unat_eq_iff)
qed

lemma work_last_activity:
  assumes "net_dev s = Some d" and "monitorTx s \<or> monitorRx s"
  shows "last_activity (netdev_trig_work K s) = new_activity_of (mode s) (dev_get_stats K d)"
  using assms by (simp add: work_bound Let_def)

lemma work_keeps:
  assumes "net_dev s = Some d" and "monitorTx s \<or> monitorRx s"
  shows "net_dev (netdev_trig_work K s) = net_dev s"
    and "mode (netdev_trig_work K s) = mode s"
    and "interval (netdev_trig_work K s) = interval s"
    and "brightness (netdev_trig_work K s) = brightness s"
    and "device_name (netdev_trig_work K s) = device_name s"
  using assms by (simp_all add: work_bound Let_def)

lemma st_linked_new_activity:
  "new_activity_of (mode st_linked) (dev_get_stats kernel_eth0 d) = 5"
  "new_activity_of (mode st_linked) (dev_get_stats kernel_eth0_later d) = 12"
  "new_activity_of (mode st_linked) (dev_get_stats kernel_eth0_wrapped d) = 5"
  using st_linked_flags
  by (simp_all add: new_activity_of_def flag_defs dev_get_stats_def kernel_eth0_def
      kernel_eth0_later_def kernel_eth0_wrapped_def)

subsection \<open>Notifications and the interval file\<close>

lemma notify_unmatched:
  "c_str (name (netdevs K dev)) \<noteq> c_str (device_name s) \<Longrightarrow>
   netdev_trig_notify K s evt dev = (s, NOTIFY_DONE)"
  by (simp add: netdev_trig_notify_def strcmp_def)

lemma notify_matched:
  assumes "handled_event evt" and "c_str (name (netdevs K dev)) = c_str (device_name s)"
  shows "netdev_trig_notify K s evt dev = (set_baseline_state (after_event K s evt dev), NOTIFY_DONE)"
  using assms
  by (cases evt)
     (auto simp: netdev_trig_notify_def after_event_def handled_event_def Let_def port_defs
        released_def strcmp_def split: option.splits
        intro!: arg_cong [where f = set_baseline_state] led_netdev_data.equality)

lemma after_event_flags:
  "linkIsUp (after_event K s evt dev) =
     ((evt = NETDEV_UP \<or> evt = NETDEV_CHANGE) \<and> netif_carrier_ok K dev)"
  "monitorLink (after_event K s evt dev) = monitorLink s"
  "monitorTx (after_event K s evt dev) = monitorTx s"
  "monitorRx (after_event K s evt dev) = monitorRx s"
  by (auto simp: after_event_def flag_defs bit_nr_defs test_bit_simps)

lemma c_str_names:
  "c_str (device_name st_linked) = ''eth0''"
  "c_str (device_name st_fresh) = []"
  "c_str (name (netdevs kernel_eth0 d)) = ''eth0''"
  "c_str (name (netdevs kernel_wan d)) = ''wan''"
  by (simp_all add: c_str_def st_linked_def st_fresh_def kernel_eth0_def kernel_wan_def NUL_def
      IFNAMSIZ_def)

lemma interval_store_parsed:
  assumes "kstrtoul K buf = (0, v)"
  shows "interval_store K s buf sz =
     (if 5 \<le> v \<and> v \<le> 10000
      then (set_baseline_state ((cancel_delayed_work_sync s)\<lparr>interval := msecs_to_jiffies K v\<rparr>),
            int sz)
      else (s, int sz))"
  using assms by (simp add: interval_store_def Let_def)

subsection \<open>Writes to the flag files and to the device name file\<close>

lemma attr_store_parsed:
  assumes "kstrtoul K buf = (0, v)"
  shows "netdev_led_attr_store K s buf sz attr =
     (set_baseline_state
        ((cancel_delayed_work_sync s)
           \<lparr>mode := (if v \<noteq> 0 then set_bit_ul (attr_bit attr) (mode s)
                     else clear_bit (attr_bit attr) (mode s))\<rparr>),
      int sz)"
  using assms by (simp add: netdev_led_attr_store_def Let_def port_defs)

lemma attr_store_last_activity:
  "last_activity (fst (netdev_led_attr_store K s buf sz attr)) = last_activity s"
  by (cases "kstrtoul K buf")
     (simp add: netdev_led_attr_store_def Let_def port_defs sbs_fields)

lemma device_name_store_last_activity:
  "sz < IFNAMSIZ \<Longrightarrow> last_activity (fst (device_name_store K s buf sz)) = 0"
  by (simp add: device_name_store_def Let_def sbs_fields split: option.splits prod.splits)

lemma device_name_store_rejected:
  "IFNAMSIZ \<le> sz \<Longrightarrow> device_name_store K s buf sz = (s, - EINVAL)"
  by (simp add: device_name_store_def)

lemma NUL_not_newline: "NUL \<noteq> newline" "newline \<noteq> NUL"
  by (simp_all add: NUL_def newline_def)

lemma strncpy_no_text:
  "c_str buf = [] \<Longrightarrow> strncpy dn buf sz = replicate sz NUL @ drop sz dn"
  by (simp add: strncpy_def)

lemma strncpy_one_newline:
  "take (Suc 0) (c_str buf) = [newline] \<Longrightarrow> strncpy dn buf (Suc 0) = newline # drop (Suc 0) dn"
  by (cases "c_str buf") (simp_all add: strncpy_def)

lemma device_name_store_no_text:
  assumes "c_str buf = []" and "0 < sz" and "sz < IFNAMSIZ"
  shows "device_name_store K s buf sz =
     (set_baseline_state
        (s\<lparr>work := None, net_dev := None,
           device_name := replicate sz NUL @ drop sz (device_name s),
           mode := clear_bit NETDEV_LED_MODE_LINKUP (mode s),
           last_activity := 0,
           calls := calls s @ [Cancel_delayed_work_sync] @ released s\<rparr>),
      int sz)"
  using assms
  by (cases "net_dev s")
     (auto simp: device_name_store_def Let_def port_defs strncpy_no_text nth_append
        NUL_not_newline released_def
        intro!: arg_cong [where f = set_baseline_state] led_netdev_data.equality)

lemma device_name_store_one_newline:
  assumes "take (Suc 0) (c_str buf) = [newline]"
  shows "device_name_store K s buf (Suc 0) =
     (set_baseline_state
        (s\<lparr>work := None, net_dev := None,
           device_name := NUL # drop (Suc 0) (device_name s),
           mode := clear_bit NETDEV_LED_MODE_LINKUP (mode s),
           last_activity := 0,
           calls := calls s @ [Cancel_delayed_work_sync] @ released s\<rparr>),
      1)"
  using assms
  by (cases "net_dev s")
     (auto simp: device_name_store_def Let_def port_defs strncpy_one_newline
        NUL_not_newline released_def IFNAMSIZ_def
        intro!: arg_cong [where f = set_baseline_state] led_netdev_data.equality)

text \<open>The name an accepted write leaves, and the name a write of no bytes leaves.\<close>

lemma dev_get_by_name_device_name:
  "device_name (snd (dev_get_by_name K nm m)) = device_name m"
  by (simp add: dev_get_by_name_def port_defs split: option.splits)

lemma device_name_store_name:
  assumes "sz < IFNAMSIZ"
  shows "device_name (fst (device_name_store K s buf sz)) =
     (if 0 < sz \<and> strncpy (device_name s) buf sz ! (sz - 1) = newline
      then (strncpy (device_name s) buf sz)[sz - 1 := NUL]
      else strncpy (device_name s) buf sz)"
proof -
  from assms have nle: "\<not> IFNAMSIZ \<le> sz" by simp
  define s1 where "s1 = cancel_delayed_work_sync s"
  define s2 where "s2 = (case net_dev s1 of
                     Some d \<Rightarrow> (dev_put d s1)\<lparr>net_dev := None\<rparr>
                   | None \<Rightarrow> s1)"
  define copied where "copied = strncpy (device_name s2) buf sz"
  define nm where "nm = (if sz > 0 \<and> copied ! (sz - 1) = newline
                   then copied[sz - 1 := NUL]
                   else copied)"
  define s3 where "s3 = s2\<lparr>device_name := nm\<rparr>"
  define s4 where "s4 = (if device_name s3 ! 0 \<noteq> NUL
                   then (case dev_get_by_name K (device_name s3) s3 of
                           (d, s') \<Rightarrow> s'\<lparr>net_dev := d\<rparr>)
                   else s3)"
  define s5 where "s5 = s4\<lparr>mode := clear_bit NETDEV_LED_MODE_LINKUP (mode s4)\<rparr>"
  define s6 where "s6 = (case net_dev s5 of
                     Some d \<Rightarrow>
                       (if netif_carrier_ok K d
                        then s5\<lparr>mode := set_bit_ul NETDEV_LED_MODE_LINKUP (mode s5)\<rparr>
                        else s5)
                   | None \<Rightarrow> s5)"
  define s7 where "s7 = s6\<lparr>last_activity := 0\<rparr>"
  have store: "fst (device_name_store K s buf sz) = set_baseline_state s7"
    unfolding s7_def s6_def s5_def s4_def s3_def nm_def copied_def s2_def s1_def
      device_name_store_def Let_def
    by (simp only: if_not_P [OF nle] fst_conv)
  have d2: "device_name s2 = device_name s"
    by (simp add: s2_def s1_def port_defs split: option.splits)
  have d3: "device_name s3 = nm" by (simp add: s3_def)
  have d4: "device_name s4 = nm"
  proof (cases "device_name s3 ! 0 \<noteq> NUL")
    case True
    then have "s4 = (snd (dev_get_by_name K (device_name s3) s3))
                      \<lparr>net_dev := fst (dev_get_by_name K (device_name s3) s3)\<rparr>"
      by (simp add: s4_def split: prod.splits)
    then show ?thesis using d3 by (simp add: dev_get_by_name_device_name)
  next
    case False
    then show ?thesis using d3 by (simp add: s4_def)
  qed
  have d5: "device_name s5 = nm" using d4 by (simp add: s5_def)
  have d6: "device_name s6 = nm" using d5 by (simp add: s6_def split: option.splits)
  have d7: "device_name s7 = nm" using d6 by (simp add: s7_def)
  show ?thesis
    by (simp only: store sbs_fields d7 nm_def copied_def d2)
qed

lemma zero_length_write_keeps_name:
  "device_name (fst (device_name_store K s buf 0)) = device_name s"
  by (simp add: device_name_store_name IFNAMSIZ_def strncpy_def)

text \<open>
  The accepted writes of at least one byte that leave the stored name empty are those whose
  first byte is the terminator and those whose one byte is a newline.
\<close>

lemma c_str_first: "c_str buf = c # cs \<Longrightarrow> c \<noteq> NUL"
  unfolding c_str_def by (metis list.set_intros(1) set_takeWhileD)

lemma c_str_empty_iff: "nm \<noteq> [] \<Longrightarrow> c_str nm = [] \<longleftrightarrow> nm ! 0 = NUL"
  by (cases nm) (simp_all add: c_str_def)

lemma empty_name_write_iff:
  assumes "0 < sz" and "sz < IFNAMSIZ"
  shows "empty_name_write buf sz \<longleftrightarrow>
         c_str (device_name (fst (device_name_store K s buf sz))) = []"
proof -
  define cp where "cp = strncpy (device_name s) buf sz"
  define nm where "nm = (if 0 < sz \<and> cp ! (sz - 1) = newline then cp[sz - 1 := NUL] else cp)"
  have name: "device_name (fst (device_name_store K s buf sz)) = nm"
    by (simp only: device_name_store_name [OF assms(2)] nm_def cp_def)
  have len: "sz \<le> length cp" by (simp add: cp_def strncpy_def)
  with assms(1) have pos: "0 < length cp" by linarith
  then have ne: "nm \<noteq> []" by (auto simp: nm_def)
  have first: "cp ! 0 = (if c_str buf = [] then NUL else hd (c_str buf))"
    using assms(1) by (cases "c_str buf") (simp_all add: cp_def strncpy_def nth_append)
  have nm0: "nm ! 0 = NUL \<longleftrightarrow> c_str buf = [] \<or> (sz = 1 \<and> take 1 (c_str buf) = [newline])"
  proof (cases "c_str buf")
    case Nil
    then show ?thesis
      using first assms(1) pos by (cases "sz = 1") (auto simp: nm_def NUL_not_newline)
  next
    case (Cons c cs)
    then have c: "c \<noteq> NUL" by (rule c_str_first)
    show ?thesis
    proof (cases "sz = 1")
      case True
      then show ?thesis using first Cons c pos by (auto simp: nm_def)
    next
      case False
      with assms(1) have "sz - 1 \<noteq> 0" by simp
      then show ?thesis using first Cons c pos False by (auto simp: nm_def)
    qed
  qed
  show ?thesis
    using assms by (simp add: name c_str_empty_iff [OF ne] nm0 empty_name_write_def)
qed

subsection \<open>Reading and writing the mode file\<close>

lemma attr_store_effect:
  assumes "kstrtoul K buf = (0, v)"
  shows "linkIsUp (fst (netdev_led_attr_store K s buf sz attr)) = linkIsUp s"
    and "monitorLink (fst (netdev_led_attr_store K s buf sz attr)) =
           (if attr = NETDEV_ATTR_LINK then v \<noteq> 0 else monitorLink s)"
    and "monitorTx (fst (netdev_led_attr_store K s buf sz attr)) =
           (if attr = NETDEV_ATTR_TX then v \<noteq> 0 else monitorTx s)"
    and "monitorRx (fst (netdev_led_attr_store K s buf sz attr)) =
           (if attr = NETDEV_ATTR_RX then v \<noteq> 0 else monitorRx s)"
  by (cases attr; simp add: attr_store_parsed [OF assms] sbs_flags,
      simp add: flag_defs port_defs bit_nr_defs test_bit_simps)+

lemma attr_store_reconciled:
  assumes "kstrtoul K buf = (0, v)"
  shows "brightness (fst (netdev_led_attr_store K s buf sz attr)) =
           (if linkIsUp (fst (netdev_led_attr_store K s buf sz attr))
               \<and> monitorLink (fst (netdev_led_attr_store K s buf sz attr))
            then blink_brightness (fst (netdev_led_attr_store K s buf sz attr)) else LED_OFF)"
    and "work (fst (netdev_led_attr_store K s buf sz attr)) =
           (if linkIsUp (fst (netdev_led_attr_store K s buf sz attr))
               \<and> (monitorTx (fst (netdev_led_attr_store K s buf sz attr))
                    \<or> monitorRx (fst (netdev_led_attr_store K s buf sz attr)))
            then Some 0 else None)"
proof -
  define m where "m = (cancel_delayed_work_sync s)
           \<lparr>mode := (if v \<noteq> 0 then set_bit_ul (attr_bit attr) (mode s)
                     else clear_bit (attr_bit attr) (mode s))\<rparr>"
  have st: "fst (netdev_led_attr_store K s buf sz attr) = set_baseline_state m"
    by (simp add: attr_store_parsed [OF assms] m_def)
  have w: "work m = None" by (simp add: m_def port_defs)
  show "brightness (fst (netdev_led_attr_store K s buf sz attr)) =
           (if linkIsUp (fst (netdev_led_attr_store K s buf sz attr))
               \<and> monitorLink (fst (netdev_led_attr_store K s buf sz attr))
            then blink_brightness (fst (netdev_led_attr_store K s buf sz attr)) else LED_OFF)"
    by (simp add: st sbs_brightness sbs_flags sbs_blink_brightness)
  show "work (fst (netdev_led_attr_store K s buf sz attr)) =
           (if linkIsUp (fst (netdev_led_attr_store K s buf sz attr))
               \<and> (monitorTx (fst (netdev_led_attr_store K s buf sz attr))
                    \<or> monitorRx (fst (netdev_led_attr_store K s buf sz attr)))
            then Some 0 else None)"
    by (simp add: st sbs_work sbs_flags w)
qed

lemma mode_show_slots:
  "mode_show s =
     (if monitorLink s then ''link'' else '''') @ '' ''
     @ (if monitorTx s then ''tx'' else '''') @ '' ''
     @ (if monitorRx s then ''rx'' else '''') @ [newline]"
  by (simp add: mode_show_def flag_defs bit_nr_defs)

lemma words_of_mode_show: "words_of (mode_show s) = mode_tokens s"
  by (simp add: mode_show_slots words_of_def mode_tokens_def newline_def)

lemma mode_store_chain:
  "fst (mode_store K s buf sz) =
     fst (netdev_led_attr_store K
           (fst (netdev_led_attr_store K
                  (fst (netdev_led_attr_store K s
                         (if strstr buf ''link'' then ''1'' else ''0'') sz NETDEV_ATTR_LINK))
                  (if strstr buf ''tx'' then ''1'' else ''0'') sz NETDEV_ATTR_TX))
           (if strstr buf ''rx'' then ''1'' else ''0'') sz NETDEV_ATTR_RX)"
  by (simp add: mode_store_def Let_def)

lemma st_rx_only_flags:
  "\<not> linkIsUp st_rx_only" "\<not> monitorLink st_rx_only" "\<not> monitorTx st_rx_only"
  "monitorRx st_rx_only"
  by (simp_all add: flag_defs st_rx_only_def bit_nr_defs test_bit_simps)

subsection \<open>Steps that keep the invariant of the unbound controller\<close>

lemma reconciled_unbound:
  assumes "net_dev m = None \<Longrightarrow> \<not> linkIsUp m \<and> work m = None"
  shows "unbound_invariant (set_baseline_state m)"
  using assms
  by (auto simp: unbound_invariant_def sbs_fields sbs_flags sbs_brightness sbs_work)

lemma dev_get_by_name_work: "work (snd (dev_get_by_name K nm m)) = work m"
  by (simp add: dev_get_by_name_def port_defs split: option.splits)

lemma device_name_store_shape:
  assumes "sz < IFNAMSIZ"
  shows "\<exists>m. fst (device_name_store K s buf sz) = set_baseline_state m
           \<and> work m = None \<and> (net_dev m = None \<longrightarrow> \<not> linkIsUp m)"
proof -
  from assms have nle: "\<not> IFNAMSIZ \<le> sz" by simp
  define s1 where "s1 = cancel_delayed_work_sync s"
  define s2 where "s2 = (case net_dev s1 of
                     Some d \<Rightarrow> (dev_put d s1)\<lparr>net_dev := None\<rparr>
                   | None \<Rightarrow> s1)"
  define copied where "copied = strncpy (device_name s2) buf sz"
  define nm where "nm = (if sz > 0 \<and> copied ! (sz - 1) = newline
                   then copied[sz - 1 := NUL]
                   else copied)"
  define s3 where "s3 = s2\<lparr>device_name := nm\<rparr>"
  define s4 where "s4 = (if device_name s3 ! 0 \<noteq> NUL
                   then (case dev_get_by_name K (device_name s3) s3 of
                           (d, s') \<Rightarrow> s'\<lparr>net_dev := d\<rparr>)
                   else s3)"
  define s5 where "s5 = s4\<lparr>mode := clear_bit NETDEV_LED_MODE_LINKUP (mode s4)\<rparr>"
  define s6 where "s6 = (case net_dev s5 of
                     Some d \<Rightarrow>
                       (if netif_carrier_ok K d
                        then s5\<lparr>mode := set_bit_ul NETDEV_LED_MODE_LINKUP (mode s5)\<rparr>
                        else s5)
                   | None \<Rightarrow> s5)"
  define s7 where "s7 = s6\<lparr>last_activity := 0\<rparr>"
  have store: "fst (device_name_store K s buf sz) = set_baseline_state s7"
    unfolding s7_def s6_def s5_def s4_def s3_def nm_def copied_def s2_def s1_def
      device_name_store_def Let_def
    by (simp only: if_not_P [OF nle] fst_conv)
  have w1: "work s1 = None" by (simp add: s1_def port_defs)
  have w2: "work s2 = None" using w1 by (simp add: s2_def port_defs split: option.splits)
  have w3: "work s3 = None" using w2 by (simp add: s3_def)
  have w4: "work s4 = None"
  proof (cases "device_name s3 ! 0 \<noteq> NUL")
    case True
    then have "s4 = (snd (dev_get_by_name K (device_name s3) s3))
                      \<lparr>net_dev := fst (dev_get_by_name K (device_name s3) s3)\<rparr>"
      by (simp add: s4_def split: prod.splits)
    then show ?thesis using w3 by (simp add: dev_get_by_name_work)
  next
    case False
    then show ?thesis using w3 by (simp add: s4_def)
  qed
  have w5: "work s5 = None" and l5: "\<not> linkIsUp s5"
    using w4 by (simp_all add: s5_def flag_defs test_bit_simps)
  have w6: "work s6 = None"
    using w5 by (simp add: s6_def split: option.splits)
  have l6: "net_dev s6 = None \<longrightarrow> \<not> linkIsUp s6"
    using l5 by (cases "net_dev s5") (simp_all add: s6_def)
  have w7: "work s7 = None" and l7: "net_dev s7 = None \<longrightarrow> \<not> linkIsUp s7"
    using w6 l6 by (simp_all add: s7_def flag_defs)
  show ?thesis
  proof (intro exI conjI)
    show "fst (device_name_store K s buf sz) = set_baseline_state s7" by (rule store)
    show "work s7 = None" by (rule w7)
    show "net_dev s7 = None \<longrightarrow> \<not> linkIsUp s7" by (rule l7)
  qed
qed

lemma inv_device_name_store:
  "unbound_invariant s \<Longrightarrow> unbound_invariant (fst (device_name_store K s buf sz))"
proof (cases "sz < IFNAMSIZ")
  case False
  assume "unbound_invariant s"
  with False show ?thesis by (simp add: device_name_store_def)
next
  case True
  from device_name_store_shape [OF True, of K s buf] obtain m
    where "fst (device_name_store K s buf sz) = set_baseline_state m"
      and "work m = None" and "net_dev m = None \<longrightarrow> \<not> linkIsUp m"
    by auto
  then show ?thesis
    by (simp add: reconciled_unbound)
qed

lemma inv_attr_store:
  "unbound_invariant s \<Longrightarrow> unbound_invariant (fst (netdev_led_attr_store K s buf sz attr))"
proof -
  assume inv: "unbound_invariant s"
  obtain ret v where p: "kstrtoul K buf = (ret, v)" by (cases "kstrtoul K buf")
  show ?thesis
  proof (cases "ret = 0")
    case False
    with p inv show ?thesis by (simp add: netdev_led_attr_store_def)
  next
    case True
    with p have q: "kstrtoul K buf = (0, v)" by simp
    show ?thesis
      unfolding attr_store_parsed [OF q] fst_conv
      apply (rule reconciled_unbound)
      using inv
      apply (cases attr)
      apply (auto simp: unbound_invariant_def port_defs flag_defs test_bit_simps bit_nr_defs)
      done
  qed
qed

lemma inv_mode_store:
  "unbound_invariant s \<Longrightarrow> unbound_invariant (fst (mode_store K s buf sz))"
  by (simp only: mode_store_chain inv_attr_store)

lemma inv_interval_store:
  "unbound_invariant s \<Longrightarrow> unbound_invariant (fst (interval_store K s buf sz))"
proof -
  assume inv: "unbound_invariant s"
  obtain ret v where p: "kstrtoul K buf = (ret, v)" by (cases "kstrtoul K buf")
  show ?thesis
  proof (cases "ret = 0 \<and> 5 \<le> v \<and> v \<le> 10000")
    case False
    with p inv show ?thesis by (auto simp add: interval_store_def)
  next
    case True
    with p have "fst (interval_store K s buf sz) =
      set_baseline_state ((cancel_delayed_work_sync s)\<lparr>interval := msecs_to_jiffies K v\<rparr>)"
      by (simp add: interval_store_def Let_def)
    moreover have "unbound_invariant
      (set_baseline_state ((cancel_delayed_work_sync s)\<lparr>interval := msecs_to_jiffies K v\<rparr>))"
      apply (rule reconciled_unbound)
      using inv
      apply (auto simp: unbound_invariant_def port_defs flag_defs)
      done
    ultimately show ?thesis by simp
  qed
qed

lemma inv_notify:
  assumes "unbound_invariant s" and "\<not> link_event_unbound s (K, Notify evt dev)"
  shows "unbound_invariant (fst (netdev_trig_notify K s evt dev))"
proof (cases "handled_event evt \<and> c_str (name (netdevs K dev)) = c_str (device_name s)")
  case False
  with assms(1) show ?thesis
    by (auto simp: netdev_trig_notify_def handled_event_def strcmp_def)
next
  case True
  then have "fst (netdev_trig_notify K s evt dev) = set_baseline_state (after_event K s evt dev)"
    by (simp add: notify_matched)
  moreover have "unbound_invariant (set_baseline_state (after_event K s evt dev))"
  proof (rule reconciled_unbound)
    assume n: "net_dev (after_event K s evt dev) = None"
    have w: "work (after_event K s evt dev) = None" by (simp add: after_event_def)
    from n have "net_dev s = None \<or> evt = NETDEV_CHANGENAME \<or> evt = NETDEV_UNREGISTER"
      by (auto simp: after_event_def split: if_splits)
    with assms(2) True have "\<not> linkIsUp (after_event K s evt dev)"
      by (auto simp: after_event_flags)
    with w show "\<not> linkIsUp (after_event K s evt dev) \<and> work (after_event K s evt dev) = None"
      by simp
  qed
  ultimately show ?thesis by simp
qed

lemma inv_work:
  assumes "unbound_invariant s"
  shows "unbound_invariant (netdev_trig_work K (s\<lparr>work := None\<rparr>))"
  using assms
  by (auto simp: unbound_invariant_def netdev_trig_work_def Let_def port_defs flag_defs
      LED_OFF_def split: option.splits)

text \<open>
  Every write, every run of the poll task and every notification other than an UP or CHANGE
  event for the configured name, with carrier, while no handle is held, keeps the invariant.
\<close>

lemma unbound_invariant_step:
  assumes "unbound_invariant s" and "\<not> link_event_unbound s kop"
  shows "unbound_invariant (step s kop)"
proof -
  obtain K op where kop: "kop = (K, op)" by (cases kop)
  show ?thesis
    using assms unfolding kop
    by (cases op)
       (simp_all add: inv_device_name_store inv_attr_store inv_mode_store inv_interval_store
          inv_notify inv_work)
qed

section \<open>The claims\<close>

subsection \<open>The handle and the link flag\<close>

text \<open>
  Claim C1 says that whenever the handle \<open>net_dev\<close> is none, \<open>linkIsUp\<close> is false,
  the output is off and the poll task is not pending, after every operation. The sequence
  \<open>rename_then_carrier\<close>, run from the state activation installs, ends otherwise. The
  name \<open>eth0\<close> is written while no device is called so, so no handle is taken; the rename
  of a device to \<open>eth0\<close> is handled like its removal, so still no handle is taken; the
  CHANGE event that follows carries the name \<open>eth0\<close> and a device with carrier, and the
  handler sets \<open>linkIsUp\<close> without looking at \<open>net_dev\<close>. The Reconciler then turns
  the output on and schedules the poll task, with no device bound. When the poll task runs it
  finds no device and turns the output off, while \<open>linkIsUp\<close> stays set.
\<close>

theorem C1_link_up_without_device:
  "netdev_trig_activate kernel_wan 0 0 255 True 0 = Some st_fresh
   \<and> net_dev (run st_fresh rename_then_carrier) = None
   \<and> linkIsUp (run st_fresh rename_then_carrier)
   \<and> brightness (run st_fresh rename_then_carrier) = 255
   \<and> work (run st_fresh rename_then_carrier) = Some 0
   \<and> net_dev (run st_fresh (rename_then_carrier @ [(kernel_eth0, Work_runs)])) = None
   \<and> linkIsUp (run st_fresh (rename_then_carrier @ [(kernel_eth0, Work_runs)]))
   \<and> brightness (run st_fresh (rename_then_carrier @ [(kernel_eth0, Work_runs)])) = LED_OFF"
  by code_simp

subsection \<open>The poller\<close>

text \<open>
  Claim C2. A run of the poller (\<open>netdev_trig_work\<close>) with a bound device and at least
  one of \<open>monitorTx\<close>, \<open>monitorRx\<close> set: when the activity just computed differs from
  \<open>last_activity\<close> it calls \<open>led_stop_software_blink\<close>, then
  \<open>led_blink_set_oneshot\<close> once, with on and off durations both the poll interval in
  milliseconds and the inversion flag equal to \<open>monitorLink\<close>, and stores the new activity;
  when it does not differ it makes neither call. In both cases it then schedules itself with
  a delay of twice the stored interval (the workqueue counts the delay in jiffies, the unit the
  interval is stored in).
\<close>

theorem C2_netdev_trig_work:
  assumes "net_dev s = Some d" and "monitorTx s \<or> monitorRx s"
  shows
    "(last_activity s \<noteq> new_activity_of (mode s) (dev_get_stats K d) \<longrightarrow>
        calls (netdev_trig_work K s) =
          calls s @ [Led_stop_software_blink,
                     Led_blink_set_oneshot (pollIntervalMs K s) (pollIntervalMs K s) (monitorLink s),
                     Schedule_delayed_work (2 * interval s)]
        \<and> last_activity (netdev_trig_work K s) = new_activity_of (mode s) (dev_get_stats K d))
     \<and> (last_activity s = new_activity_of (mode s) (dev_get_stats K d) \<longrightarrow>
        calls (netdev_trig_work K s) = calls s @ [Schedule_delayed_work (2 * interval s)]
        \<and> last_activity (netdev_trig_work K s) = last_activity s)
     \<and> work (netdev_trig_work K s) = Some (2 * interval s)
     \<and> interval (netdev_trig_work K s) = interval s
     \<and> mode (netdev_trig_work K s) = mode s
     \<and> net_dev (netdev_trig_work K s) = net_dev s"
  using assms by (simp add: work_bound Let_def mult.commute)

theorem C2_netdev_trig_work_witness:
  "net_dev st_linked = Some 1 \<and> (monitorTx st_linked \<or> monitorRx st_linked)
   \<and> last_activity st_linked \<noteq> new_activity_of (mode st_linked) (dev_get_stats kernel_eth0_later 1)
   \<and> calls (netdev_trig_work kernel_eth0_later st_linked) =
        [Led_stop_software_blink, Led_blink_set_oneshot 52 52 True, Schedule_delayed_work 26]
   \<and> last_activity (netdev_trig_work kernel_eth0_later st_linked) = 12
   \<and> last_activity st_linked = new_activity_of (mode st_linked) (dev_get_stats kernel_eth0 1)
   \<and> calls (netdev_trig_work kernel_eth0 st_linked) = [Schedule_delayed_work 26]
   \<and> work (netdev_trig_work kernel_eth0 st_linked) = Some 26"
proof -
  have b: "net_dev st_linked = Some 1" by (simp add: st_linked_def)
  have m: "monitorTx st_linked \<or> monitorRx st_linked" by (simp add: st_linked_flags)
  have l: "last_activity st_linked = 5" "interval st_linked = 13" "calls st_linked = []"
    by (simp_all add: st_linked_def)
  have p: "pollIntervalMs kernel_eth0_later st_linked = 52"
    by (simp add: pollIntervalMs_def kernel_eth0_later_def kernel_eth0_def st_linked_def)
  from C2_netdev_trig_work [OF b m, of kernel_eth0_later] C2_netdev_trig_work [OF b m, of kernel_eth0]
  show ?thesis
    by (simp add: b m l p st_linked_new_activity st_linked_flags)
qed

subsection \<open>The Reconciler\<close>

text \<open>
  Claim C3. Every call of \<open>set_baseline_state\<close>: when \<open>linkIsUp\<close> is false it sets the
  output to \<open>LED_OFF\<close> (one \<open>led_set_brightness\<close> call) and leaves the poll task as it
  was; when \<open>linkIsUp\<close> is true it sets the output to the pulse brightness if
  \<open>monitorLink\<close> is set and to \<open>LED_OFF\<close> otherwise, and then schedules the poll task
  with delay 0 exactly when \<open>monitorTx\<close> or \<open>monitorRx\<close> is set. The pulse brightness
  it remembers falls back to the maximum brightness when both the current and the remembered
  brightness are zero; on a LED whose maximum brightness is not zero the output ends up on
  exactly when \<open>linkIsUp\<close> and \<open>monitorLink\<close> are both set.
\<close>

theorem C3_set_baseline_state:
  "(\<not> linkIsUp s \<longrightarrow>
      brightness (set_baseline_state s) = LED_OFF
      \<and> work (set_baseline_state s) = work s
      \<and> calls (set_baseline_state s) = calls s @ [Led_set_brightness LED_OFF])
   \<and> (linkIsUp s \<longrightarrow>
      brightness (set_baseline_state s) = (if monitorLink s then pulse_brightness s else LED_OFF)
      \<and> work (set_baseline_state s) = (if monitorTx s \<or> monitorRx s then Some 0 else work s)
      \<and> calls (set_baseline_state s) =
          calls s
          @ [Led_set_brightness (if monitorLink s then pulse_brightness s else LED_OFF)]
          @ (if monitorTx s \<or> monitorRx s then [Schedule_delayed_work 0] else []))
   \<and> blink_brightness (set_baseline_state s) = pulse_brightness s
   \<and> (brightness s = 0 \<and> blink_brightness s = 0 \<longrightarrow>
        blink_brightness (set_baseline_state s) = max_brightness s)
   \<and> (0 < max_brightness s \<longrightarrow>
        (brightness (set_baseline_state s) \<noteq> LED_OFF \<longleftrightarrow> linkIsUp s \<and> monitorLink s))"
proof -
  have off: "\<not> linkIsUp s \<longrightarrow>
      brightness (set_baseline_state s) = LED_OFF
      \<and> work (set_baseline_state s) = work s
      \<and> calls (set_baseline_state s) = calls s @ [Led_set_brightness LED_OFF]"
    by (simp add: sbs_brightness sbs_work sbs_calls)
  have on: "linkIsUp s \<longrightarrow>
      brightness (set_baseline_state s) = (if monitorLink s then pulse_brightness s else LED_OFF)
      \<and> work (set_baseline_state s) = (if monitorTx s \<or> monitorRx s then Some 0 else work s)
      \<and> calls (set_baseline_state s) =
          calls s
          @ [Led_set_brightness (if monitorLink s then pulse_brightness s else LED_OFF)]
          @ (if monitorTx s \<or> monitorRx s then [Schedule_delayed_work 0] else [])"
    by (simp add: sbs_brightness sbs_work sbs_calls)
  have fallback: "brightness s = 0 \<and> blink_brightness s = 0 \<longrightarrow>
        blink_brightness (set_baseline_state s) = max_brightness s"
    by (simp add: sbs_blink_brightness pulse_brightness_def)
  have pos: "0 < max_brightness s \<Longrightarrow> pulse_brightness s \<noteq> 0"
    by (simp add: pulse_brightness_def)
  have level: "0 < max_brightness s \<longrightarrow>
        (brightness (set_baseline_state s) \<noteq> LED_OFF \<longleftrightarrow> linkIsUp s \<and> monitorLink s)"
    using pos by (auto simp: sbs_brightness LED_OFF_def)
  from off on fallback level sbs_blink_brightness [of s] show ?thesis
    by blast
qed

theorem C3_set_baseline_state_witness:
  "linkIsUp st_linked \<and> \<not> linkIsUp st_fresh
   \<and> brightness st_linked = 0 \<and> blink_brightness st_linked = 0 \<and> 0 < max_brightness st_linked
   \<and> brightness (set_baseline_state st_linked) = 255
   \<and> work (set_baseline_state st_linked) = Some 0
   \<and> calls (set_baseline_state st_linked) = [Led_set_brightness 255, Schedule_delayed_work 0]
   \<and> blink_brightness (set_baseline_state st_linked) = max_brightness st_linked
   \<and> brightness (set_baseline_state st_fresh) = LED_OFF
   \<and> work (set_baseline_state st_fresh) = None
   \<and> calls (set_baseline_state st_fresh) = [Led_set_brightness LED_OFF]"
  using C3_set_baseline_state [of st_linked] C3_set_baseline_state [of st_fresh]
    st_linked_flags st_fresh_flags
  by (simp add: pulse_brightness_def) (simp add: st_linked_def st_fresh_def)

text \<open>
  Claim C8. The Reconciler is idempotent: a second call of \<open>set_baseline_state\<close> right
  after the first leaves the same output level and the same poll task, and makes the same calls
  (the same \<open>led_set_brightness\<close> level, the same decision to schedule) as the first did.
\<close>

theorem C8_set_baseline_state_idempotent:
  "brightness (set_baseline_state (set_baseline_state s)) = brightness (set_baseline_state s)
   \<and> work (set_baseline_state (set_baseline_state s)) = work (set_baseline_state s)
   \<and> drop (length (calls (set_baseline_state s)))
          (calls (set_baseline_state (set_baseline_state s)))
       = drop (length (calls s)) (calls (set_baseline_state s))"
proof -
  have b: "brightness (set_baseline_state (set_baseline_state s))
             = brightness (set_baseline_state s)"
    by (simp add: sbs_brightness sbs_flags pulse_brightness_sbs)
  have w: "work (set_baseline_state (set_baseline_state s)) = work (set_baseline_state s)"
    by (auto simp add: sbs_work sbs_flags)
  have c: "drop (length (calls (set_baseline_state s)))
                (calls (set_baseline_state (set_baseline_state s)))
             = drop (length (calls s)) (calls (set_baseline_state s))"
    by (simp add: sbs_calls [of "set_baseline_state s"] sbs_flags pulse_brightness_sbs)
       (auto simp add: sbs_calls [of s])
  from b w c show ?thesis by simp
qed

subsection \<open>The notification handler\<close>

text \<open>
  Claim C4. For an event of one of the six handled kinds: when the name of the event's device
  differs from \<open>device_name\<close> (compared as C strings, byte for byte) the handler changes
  nothing and returns \<open>NOTIFY_DONE\<close>; when the names are equal it returns
  \<open>NOTIFY_DONE\<close> after running the Reconciler on the state \<open>after_event\<close> describes:
  \<open>linkIsUp\<close> cleared first, the handle replaced on REGISTER (the old one released, the new
  one held), released and set to none on RENAME and UNREGISTER, \<open>linkIsUp\<close> set again on
  UP and CHANGE exactly when the device has carrier.
\<close>

theorem C4_netdev_trig_notify:
  assumes "handled_event evt"
  shows
    "(c_str (name (netdevs K dev)) \<noteq> c_str (device_name s) \<longrightarrow>
        netdev_trig_notify K s evt dev = (s, NOTIFY_DONE))
     \<and> (c_str (name (netdevs K dev)) = c_str (device_name s) \<longrightarrow>
        netdev_trig_notify K s evt dev =
          (set_baseline_state (after_event K s evt dev), NOTIFY_DONE)
        \<and> net_dev (fst (netdev_trig_notify K s evt dev)) =
            (if evt = NETDEV_REGISTER then Some dev
             else if evt = NETDEV_CHANGENAME \<or> evt = NETDEV_UNREGISTER then None
             else net_dev s)
        \<and> linkIsUp (fst (netdev_trig_notify K s evt dev)) =
            ((evt = NETDEV_UP \<or> evt = NETDEV_CHANGE) \<and> netif_carrier_ok K dev)
        \<and> monitorLink (fst (netdev_trig_notify K s evt dev)) = monitorLink s
        \<and> monitorTx (fst (netdev_trig_notify K s evt dev)) = monitorTx s
        \<and> monitorRx (fst (netdev_trig_notify K s evt dev)) = monitorRx s
        \<and> device_name (fst (netdev_trig_notify K s evt dev)) = device_name s
        \<and> last_activity (fst (netdev_trig_notify K s evt dev)) = last_activity s
        \<and> interval (fst (netdev_trig_notify K s evt dev)) = interval s)"
proof -
  have fields: "net_dev (after_event K s evt dev) =
            (if evt = NETDEV_REGISTER then Some dev
             else if evt = NETDEV_CHANGENAME \<or> evt = NETDEV_UNREGISTER then None
             else net_dev s)"
    "device_name (after_event K s evt dev) = device_name s"
    "last_activity (after_event K s evt dev) = last_activity s"
    "interval (after_event K s evt dev) = interval s"
    by (simp_all add: after_event_def)
  show ?thesis
    using assms
    by (simp add: notify_unmatched notify_matched sbs_fields sbs_flags after_event_flags fields)
qed

theorem C4_netdev_trig_notify_witness:
  "handled_event NETDEV_CHANGE \<and> handled_event NETDEV_UNREGISTER
   \<and> c_str (name (netdevs kernel_eth0 1)) \<noteq> c_str (device_name st_fresh)
   \<and> netdev_trig_notify kernel_eth0 st_fresh NETDEV_CHANGE 1 = (st_fresh, NOTIFY_DONE)
   \<and> c_str (name (netdevs kernel_eth0 1)) = c_str (device_name st_linked)
   \<and> linkIsUp (fst (netdev_trig_notify kernel_eth0 st_linked NETDEV_CHANGE 1))
   \<and> net_dev (fst (netdev_trig_notify kernel_eth0 st_linked NETDEV_CHANGE 1)) = Some 1
   \<and> \<not> linkIsUp (fst (netdev_trig_notify kernel_eth0 st_linked NETDEV_UNREGISTER 1))
   \<and> net_dev (fst (netdev_trig_notify kernel_eth0 st_linked NETDEV_UNREGISTER 1)) = None"
proof -
  have h: "handled_event NETDEV_CHANGE" "handled_event NETDEV_UNREGISTER"
    by (simp_all add: handled_event_def)
  have c: "netif_carrier_ok kernel_eth0 d" for d
    by (simp add: netif_carrier_ok_def kernel_eth0_def)
  have n: "net_dev st_linked = Some 1" by (simp add: st_linked_def)
  from C4_netdev_trig_notify [OF h(1), of kernel_eth0 1 st_fresh]
    C4_netdev_trig_notify [OF h(1), of kernel_eth0 1 st_linked]
    C4_netdev_trig_notify [OF h(2), of kernel_eth0 1 st_linked]
  show ?thesis
    by (auto simp add: h c n c_str_names)
qed

subsection \<open>The device name file and the flag files\<close>

text \<open>
  Claim C5 says that \<open>last_activity\<close> is 0 after every device-name write and after every
  flag write. A flag write does not touch it: in the state \<open>st_linked\<close>, whose last poll
  saw 5 packets, an accepted write of \<open>1\<close> to the rx file sets the rx flag and leaves
  \<open>last_activity\<close> at 5.
\<close>

theorem C5_flag_write_keeps_last_activity:
  "kstrtoul kernel_eth0 ''1'' = (0, 1)
   \<and> snd (netdev_led_attr_store kernel_eth0 st_linked ''1'' 1 NETDEV_ATTR_RX) = 1
   \<and> monitorRx (fst (netdev_led_attr_store kernel_eth0 st_linked ''1'' 1 NETDEV_ATTR_RX))
   \<and> \<not> monitorRx st_linked
   \<and> last_activity (fst (netdev_led_attr_store kernel_eth0 st_linked ''1'' 1 NETDEV_ATTR_RX)) = 5
   \<and> last_activity (fst (netdev_led_attr_store kernel_eth0 st_linked ''1'' 1 NETDEV_ATTR_RX)) \<noteq> 0"
proof -
  have k: "kstrtoul kernel_eth0 ''1'' = (0, 1)"
    by (simp add: kernel_eth0_def parse_sample_def)
  have l: "last_activity st_linked = 5" by (simp add: st_linked_def)
  have r: "snd (netdev_led_attr_store kernel_eth0 st_linked ''1'' 1 NETDEV_ATTR_RX) = 1"
    by (simp add: attr_store_parsed [OF k])
  have f: "monitorRx (fst (netdev_led_attr_store kernel_eth0 st_linked ''1'' 1 NETDEV_ATTR_RX))"
    by (simp add: attr_store_parsed [OF k] sbs_flags)
       (simp add: flag_defs port_defs bit_nr_defs test_bit_simps)
  have a: "last_activity (fst (netdev_led_attr_store kernel_eth0 st_linked ''1'' 1 NETDEV_ATTR_RX)) = 5"
    by (simp add: attr_store_last_activity l)
  from k r f a show ?thesis
    by (simp add: st_linked_flags)
qed

text \<open>
  Claim C5, amended. After every device-name write that is accepted (fewer than
  \<open>IFNAMSIZ\<close> bytes) \<open>last_activity\<close> is 0; a longer write is rejected with
  \<open>-EINVAL\<close> and changes nothing; a flag write leaves \<open>last_activity\<close> as it was.
\<close>

theorem C5_last_activity_reset:
  "(sz < IFNAMSIZ \<longrightarrow> last_activity (fst (device_name_store K s buf sz)) = 0)
   \<and> (IFNAMSIZ \<le> sz \<longrightarrow> device_name_store K s buf sz = (s, - EINVAL))
   \<and> last_activity (fst (netdev_led_attr_store K s flag_buf flag_sz attr)) = last_activity s"
  by (simp add: device_name_store_last_activity device_name_store_rejected
      attr_store_last_activity)

theorem C5_last_activity_reset_witness:
  "(4::nat) < IFNAMSIZ \<and> IFNAMSIZ \<le> 16
   \<and> last_activity st_linked = 5
   \<and> last_activity (fst (device_name_store kernel_eth0 st_linked ''eth0'' 4)) = 0
   \<and> device_name_store kernel_eth0 st_linked ''a-name-of-16-bytes'' 16 = (st_linked, - EINVAL)"
  using C5_last_activity_reset [of 4 kernel_eth0 st_linked "''eth0''"]
    C5_last_activity_reset [of 16 kernel_eth0 st_linked "''a-name-of-16-bytes''"]
  by (simp add: IFNAMSIZ_def) (simp add: st_linked_def)

text \<open>
  Claim C6. From every prior state, writing an empty device name unbinds the controller:
  afterwards the handle is none, \<open>linkIsUp\<close> is false, \<open>last_activity\<close> is 0, no poll
  task is pending, the output is off and the stored name is empty. An attribute file hands a
  write to its store function only when the write has at least one byte, so such a write is one
  of at least one byte that names no device: its first byte is the terminator, or its one byte
  is a newline (\<open>empty_name_write\<close>). By \<open>empty_name_write_iff\<close> these are exactly
  the accepted writes of at least one byte that leave the stored name empty.
\<close>

theorem C6_empty_name_unbinds:
  assumes "empty_name_write buf sz"
  shows "net_dev (fst (device_name_store K s buf sz)) = None
     \<and> \<not> linkIsUp (fst (device_name_store K s buf sz))
     \<and> last_activity (fst (device_name_store K s buf sz)) = 0
     \<and> work (fst (device_name_store K s buf sz)) = None
     \<and> brightness (fst (device_name_store K s buf sz)) = LED_OFF
     \<and> c_str (device_name (fst (device_name_store K s buf sz))) = []
     \<and> snd (device_name_store K s buf sz) = int sz"
proof -
  from assms have sz: "0 < sz" "sz < IFNAMSIZ"
    and cases: "c_str buf = [] \<or> (sz = 1 \<and> take 1 (c_str buf) = [newline])"
    by (simp_all add: empty_name_write_def)
  have down: "\<not> linkIsUp (m\<lparr>mode := clear_bit NETDEV_LED_MODE_LINKUP (mode s), last_activity := 0,
      calls := c\<rparr>)" for m c
    by (simp add: flag_defs test_bit_simps)
  from cases show ?thesis
  proof
    assume e: "c_str buf = []"
    have "c_str (replicate sz NUL @ drop sz (device_name s)) = []"
      using sz by (cases sz) (simp_all add: c_str_def)
    then show ?thesis
      by (simp add: device_name_store_no_text [OF e sz] sbs_fields sbs_flags sbs_work
          sbs_brightness down)
  next
    assume "sz = 1 \<and> take 1 (c_str buf) = [newline]"
    then have one: "sz = Suc 0" and t: "take (Suc 0) (c_str buf) = [newline]" by simp_all
    show ?thesis
      by (simp add: one device_name_store_one_newline [OF t] sbs_fields sbs_flags sbs_work
          sbs_brightness down c_str_def)
  qed
qed

theorem C6_empty_name_unbinds_witness:
  "empty_name_write [newline] 1
   \<and> net_dev st_linked = Some 1 \<and> linkIsUp st_linked
   \<and> net_dev (fst (device_name_store kernel_eth0 st_linked [newline] 1)) = None
   \<and> \<not> linkIsUp (fst (device_name_store kernel_eth0 st_linked [newline] 1))
   \<and> last_activity (fst (device_name_store kernel_eth0 st_linked [newline] 1)) = 0
   \<and> work (fst (device_name_store kernel_eth0 st_linked [newline] 1)) = None
   \<and> brightness (fst (device_name_store kernel_eth0 st_linked [newline] 1)) = LED_OFF"
proof -
  have e: "empty_name_write [newline] 1"
    by (simp add: empty_name_write_def IFNAMSIZ_def c_str_def NUL_not_newline)
  have n: "net_dev st_linked = Some 1" by (simp add: st_linked_def)
  from C6_empty_name_unbinds [OF e, of kernel_eth0 st_linked] show ?thesis
    by (simp add: e [simplified] n st_linked_flags)
qed

subsection \<open>The interval file\<close>

text \<open>
  Claim C7 says that an accepted interval write sets the poll interval in milliseconds to the
  value written. The interval is kept in jiffies: in the sample kernel, with HZ = 250, an
  accepted write of \<open>5\<close> stores 2 jiffies, and the poll interval then reads as 8
  milliseconds, not 5.
\<close>

theorem C7_written_5_reads_back_8:
  "kstrtoul kernel_eth0 ''5'' = (0, 5)
   \<and> snd (interval_store kernel_eth0 st_linked ''5'' 1) = 1
   \<and> interval (fst (interval_store kernel_eth0 st_linked ''5'' 1)) = 2
   \<and> pollIntervalMs kernel_eth0 (fst (interval_store kernel_eth0 st_linked ''5'' 1)) = 8
   \<and> pollIntervalMs kernel_eth0 (fst (interval_store kernel_eth0 st_linked ''5'' 1)) \<noteq> 5"
proof -
  have k: "kstrtoul kernel_eth0 ''5'' = (0, 5)"
    by (simp add: kernel_eth0_def parse_sample_def)
  have j: "msecs_to_jiffies kernel_eth0 5 = 2" "jiffies_to_msecs kernel_eth0 2 = 8"
    by (simp_all add: kernel_eth0_def)
  show ?thesis
    by (simp add: k interval_store_parsed [OF k] sbs_fields pollIntervalMs_def j port_defs)
qed

text \<open>
  Claim C7, amended. An interval write whose text \<open>kstrtoul\<close> parses returns the number
  of bytes written. When the value is below 5 or above 10000 the state is unchanged. When it
  is within 5 and 10000 the poll task is cancelled first, the stored interval becomes the value
  converted to jiffies by \<open>msecs_to_jiffies\<close>, so that the poll interval in milliseconds
  is that number of jiffies converted back by \<open>jiffies_to_msecs\<close>, and the Reconciler
  runs (after which the poll task is pending, with delay 0, exactly when the link is up and tx
  or rx is monitored).
\<close>

theorem C7_interval_store:
  assumes "kstrtoul K buf = (0, v)"
  shows
    "snd (interval_store K s buf sz) = int sz
     \<and> (v < 5 \<or> 10000 < v \<longrightarrow> fst (interval_store K s buf sz) = s)
     \<and> (5 \<le> v \<and> v \<le> 10000 \<longrightarrow>
          fst (interval_store K s buf sz) =
            set_baseline_state ((cancel_delayed_work_sync s)\<lparr>interval := msecs_to_jiffies K v\<rparr>)
          \<and> interval (fst (interval_store K s buf sz)) = msecs_to_jiffies K v
          \<and> pollIntervalMs K (fst (interval_store K s buf sz)) =
              jiffies_to_msecs K (msecs_to_jiffies K v)
          \<and> take (Suc (length (calls s))) (calls (fst (interval_store K s buf sz))) =
              calls s @ [Cancel_delayed_work_sync]
          \<and> work (fst (interval_store K s buf sz)) =
              (if linkIsUp s \<and> (monitorTx s \<or> monitorRx s) then Some 0 else None))"
proof -
  let ?m = "(cancel_delayed_work_sync s)\<lparr>interval := msecs_to_jiffies K v\<rparr>"
  have fl: "linkIsUp ?m = linkIsUp s" "monitorTx ?m = monitorTx s" "monitorRx ?m = monitorRx s"
    "work ?m = None" "calls ?m = calls s @ [Cancel_delayed_work_sync]"
    by (simp_all add: flag_defs port_defs)
  show ?thesis
    using assms
    by (auto simp add: interval_store_parsed sbs_fields sbs_work sbs_calls fl pollIntervalMs_def)
qed

theorem C7_interval_store_witness:
  "kstrtoul kernel_eth0 ''3'' = (0, 3) \<and> kstrtoul kernel_eth0 ''50000'' = (0, 50000)
   \<and> kstrtoul kernel_eth0 ''200'' = (0, 200)
   \<and> interval_store kernel_eth0 st_linked ''3'' 1 = (st_linked, 1)
   \<and> interval_store kernel_eth0 st_linked ''50000'' 5 = (st_linked, 5)
   \<and> snd (interval_store kernel_eth0 st_linked ''200'' 3) = 3
   \<and> interval (fst (interval_store kernel_eth0 st_linked ''200'' 3)) = 50
   \<and> pollIntervalMs kernel_eth0 (fst (interval_store kernel_eth0 st_linked ''200'' 3)) = 200
   \<and> work (fst (interval_store kernel_eth0 st_linked ''200'' 3)) = Some 0"
proof -
  have k: "kstrtoul kernel_eth0 ''3'' = (0, 3)" "kstrtoul kernel_eth0 ''50000'' = (0, 50000)"
    "kstrtoul kernel_eth0 ''200'' = (0, 200)"
    by (simp_all add: kernel_eth0_def parse_sample_def)
  have j: "msecs_to_jiffies kernel_eth0 200 = 50" "jiffies_to_msecs kernel_eth0 50 = 200"
    by (simp_all add: kernel_eth0_def)
  from C7_interval_store [OF k(1), of st_linked 1] C7_interval_store [OF k(2), of st_linked 5]
    C7_interval_store [OF k(3), of st_linked 3]
  show ?thesis
    by (auto simp add: k j st_linked_flags prod_eq_iff)
qed

subsection \<open>The mode file\<close>

text \<open>
  Claim C9 says that the mode file reads as the tokens of the set flags joined by spaces. The
  text \<open>mode_show\<close> prints always has its two separating spaces and a final newline:
  with only rx set it is two spaces, \<open>rx\<close> and a newline, which is not the single token
  \<open>rx\<close>, with or without a newline after it.
\<close>

theorem C9_mode_show_not_space_joined:
  "mode_tokens st_rx_only = [''rx'']
   \<and> space_joined (mode_tokens st_rx_only) = ''rx''
   \<and> mode_show st_rx_only = [CHR '' '', CHR '' '', CHR ''r'', CHR ''x'', newline]
   \<and> mode_show st_rx_only \<noteq> space_joined (mode_tokens st_rx_only)
   \<and> mode_show st_rx_only \<noteq> space_joined (mode_tokens st_rx_only) @ [newline]"
  by (simp add: mode_show_slots mode_tokens_def st_rx_only_flags)

text \<open>
  Claim C9, amended. The mode file reads as three slots, for link, tx and rx in this order,
  separated by single spaces and followed by a newline; a slot holds the token of its flag when
  the flag is set and is empty otherwise, so the words of the text are exactly the tokens of
  the set flags. A write to the mode file (with \<open>kstrtoul\<close> reading \<open>1\<close> as 1 and
  \<open>0\<close> as 0) sets each of the three flags exactly when \<open>strstr\<close> finds its token in
  the text written, whatever the order of the tokens, leaves \<open>linkIsUp\<close> alone, returns
  the number of bytes written, and ends reconciled: the output is at the pulse brightness
  exactly when the link is up and \<open>link\<close> was found, and the poll task is pending with
  delay 0 exactly when the link is up and \<open>tx\<close> or \<open>rx\<close> was found.
\<close>

theorem C9_mode_file:
  "mode_show s =
     (if monitorLink s then ''link'' else '''') @ '' ''
     @ (if monitorTx s then ''tx'' else '''') @ '' ''
     @ (if monitorRx s then ''rx'' else '''') @ [newline]
   \<and> words_of (mode_show s) = mode_tokens s
   \<and> (kstrtoul K ''1'' = (0, 1) \<and> kstrtoul K ''0'' = (0, 0) \<longrightarrow>
        monitorLink (fst (mode_store K s buf sz)) = strstr buf ''link''
        \<and> monitorTx (fst (mode_store K s buf sz)) = strstr buf ''tx''
        \<and> monitorRx (fst (mode_store K s buf sz)) = strstr buf ''rx''
        \<and> linkIsUp (fst (mode_store K s buf sz)) = linkIsUp s
        \<and> brightness (fst (mode_store K s buf sz)) =
            (if linkIsUp s \<and> strstr buf ''link''
             then blink_brightness (fst (mode_store K s buf sz)) else LED_OFF)
        \<and> work (fst (mode_store K s buf sz)) =
            (if linkIsUp s \<and> (strstr buf ''tx'' \<or> strstr buf ''rx'') then Some 0 else None)
        \<and> snd (mode_store K s buf sz) = int sz)"
proof -
  have stored: "monitorLink (fst (mode_store K s buf sz)) = strstr buf ''link''
        \<and> monitorTx (fst (mode_store K s buf sz)) = strstr buf ''tx''
        \<and> monitorRx (fst (mode_store K s buf sz)) = strstr buf ''rx''
        \<and> linkIsUp (fst (mode_store K s buf sz)) = linkIsUp s
        \<and> brightness (fst (mode_store K s buf sz)) =
            (if linkIsUp s \<and> strstr buf ''link''
             then blink_brightness (fst (mode_store K s buf sz)) else LED_OFF)
        \<and> work (fst (mode_store K s buf sz)) =
            (if linkIsUp s \<and> (strstr buf ''tx'' \<or> strstr buf ''rx'') then Some 0 else None)
        \<and> snd (mode_store K s buf sz) = int sz"
    if one: "kstrtoul K ''1'' = (0, 1)" and zero: "kstrtoul K ''0'' = (0, 0)"
  proof -
    have p: "kstrtoul K (if b then ''1'' else ''0'') = (0, if b then 1 else 0)" for b
      using one zero by simp
    define s3 where "s3 = fst (mode_store K s buf sz)"
    define s2 where "s2 = fst (netdev_led_attr_store K
                  (fst (netdev_led_attr_store K s
                         (if strstr buf ''link'' then ''1'' else ''0'') sz NETDEV_ATTR_LINK))
                  (if strstr buf ''tx'' then ''1'' else ''0'') sz NETDEV_ATTR_TX)"
    have s3: "s3 = fst (netdev_led_attr_store K s2
                         (if strstr buf ''rx'' then ''1'' else ''0'') sz NETDEV_ATTR_RX)"
      by (simp add: s3_def s2_def mode_store_chain)
    have f2: "monitorLink s2 = strstr buf ''link''" "monitorTx s2 = strstr buf ''tx''"
      "linkIsUp s2 = linkIsUp s"
      by (simp_all add: s2_def attr_store_effect [OF p])
    have f3: "monitorLink s3 = strstr buf ''link''" "monitorTx s3 = strstr buf ''tx''"
      "monitorRx s3 = strstr buf ''rx''" "linkIsUp s3 = linkIsUp s"
      by (simp_all add: s3 attr_store_effect [OF p] f2)
    have b3: "brightness s3 = (if linkIsUp s3 \<and> monitorLink s3 then blink_brightness s3 else LED_OFF)"
      unfolding s3 by (rule attr_store_reconciled(1) [OF p])
    have w3: "work s3 = (if linkIsUp s3 \<and> (monitorTx s3 \<or> monitorRx s3) then Some 0 else None)"
      unfolding s3 by (rule attr_store_reconciled(2) [OF p])
    have r: "snd (mode_store K s buf sz) = int sz"
      by (simp add: mode_store_def Let_def)
    from f3 b3 w3 r show ?thesis
      by (simp add: s3_def)
  qed
  with mode_show_slots [of s] words_of_mode_show [of s] show ?thesis
    by blast
qed

theorem C9_mode_file_witness:
  "kstrtoul kernel_eth0 ''1'' = (0, 1) \<and> kstrtoul kernel_eth0 ''0'' = (0, 0)
   \<and> strstr ''rx link'' ''link'' \<and> \<not> strstr ''rx link'' ''tx'' \<and> strstr ''rx link'' ''rx''
   \<and> words_of (mode_show st_linked) = [''link'', ''tx'']
   \<and> monitorLink (fst (mode_store kernel_eth0 st_linked ''rx link'' 7))
   \<and> \<not> monitorTx (fst (mode_store kernel_eth0 st_linked ''rx link'' 7))
   \<and> monitorRx (fst (mode_store kernel_eth0 st_linked ''rx link'' 7))
   \<and> work (fst (mode_store kernel_eth0 st_linked ''rx link'' 7)) = Some 0
   \<and> snd (mode_store kernel_eth0 st_linked ''rx link'' 7) = 7"
proof -
  have k: "kstrtoul kernel_eth0 ''1'' = (0, 1)" "kstrtoul kernel_eth0 ''0'' = (0, 0)"
    by (simp_all add: kernel_eth0_def parse_sample_def)
  have f: "strstr ''rx link'' ''link''" "\<not> strstr ''rx link'' ''tx''" "strstr ''rx link'' ''rx''"
    by (simp_all add: strstr_def c_str_def NUL_def starts_with_def)
  have t: "mode_tokens st_linked = [''link'', ''tx'']"
    by (simp add: mode_tokens_def st_linked_flags)
  from C9_mode_file [of st_linked kernel_eth0 "''rx link''" 7] show ?thesis
    by (auto simp add: k [simplified] f t st_linked_flags)
qed

subsection \<open>The width of the activity count\<close>

text \<open>
  Claim C10. The activity the poller compares is the sum of the monitored 64-bit counters
  modulo \<open>2 ^ 32\<close>: \<open>new_activity\<close> and \<open>last_activity\<close> are 32 bits wide. So when
  the counter sums seen by two successive polls differ by a multiple of \<open>2 ^ 32\<close>, the
  second poll issues no blink: it only schedules itself again.
\<close>

theorem C10_activity_modulo_2_32:
  "unat (new_activity_of (mode s) st) = counter_sum s st mod 2 ^ 32
   \<and> (net_dev s = Some d \<and> (monitorTx s \<or> monitorRx s)
       \<and> (2 ^ 32 :: int) dvd int (counter_sum s (dev_get_stats K2 d))
                               - int (counter_sum s (dev_get_stats K1 d)) \<longrightarrow>
        calls (netdev_trig_work K2 (netdev_trig_work K1 s)) =
          calls (netdev_trig_work K1 s) @ [Schedule_delayed_work (2 * interval s)]
        \<and> last_activity (netdev_trig_work K2 (netdev_trig_work K1 s)) =
            last_activity (netdev_trig_work K1 s))"
proof -
  have second: "calls (netdev_trig_work K2 (netdev_trig_work K1 s)) =
          calls (netdev_trig_work K1 s) @ [Schedule_delayed_work (2 * interval s)]
        \<and> last_activity (netdev_trig_work K2 (netdev_trig_work K1 s)) =
            last_activity (netdev_trig_work K1 s)"
    if b: "net_dev s = Some d" and m: "monitorTx s \<or> monitorRx s"
      and c: "(2 ^ 32 :: int) dvd int (counter_sum s (dev_get_stats K2 d))
                               - int (counter_sum s (dev_get_stats K1 d))"
  proof -
    let ?s1 = "netdev_trig_work K1 s"
    have b1: "net_dev ?s1 = Some d" using b m by (simp add: work_keeps)
    have md: "mode ?s1 = mode s" using b m by (simp add: work_keeps)
    have m1: "monitorTx ?s1 \<or> monitorRx ?s1" using m by (simp add: flag_defs md)
    have i1: "interval ?s1 = interval s" using b m by (simp add: work_keeps)
    have "last_activity ?s1 = new_activity_of (mode s) (dev_get_stats K1 d)"
      using b m by (rule work_last_activity)
    also have "\<dots> = new_activity_of (mode s) (dev_get_stats K2 d)"
      using c by (rule cong_activity [symmetric])
    finally have same: "last_activity ?s1 = new_activity_of (mode ?s1) (dev_get_stats K2 d)"
      by (simp add: md)
    show ?thesis
      using same by (simp add: work_bound [OF b1 m1] Let_def i1 mult.commute)
  qed
  then show ?thesis
    by (simp add: new_activity_mod)
qed

theorem C10_activity_modulo_2_32_witness:
  "net_dev st_linked = Some 1 \<and> (monitorTx st_linked \<or> monitorRx st_linked)
   \<and> counter_sum st_linked (dev_get_stats kernel_eth0 1) = 5
   \<and> counter_sum st_linked (dev_get_stats kernel_eth0_wrapped 1) = 5 + 2 ^ 32
   \<and> unat (new_activity_of (mode st_linked) (dev_get_stats kernel_eth0_wrapped 1)) = 5
   \<and> calls (netdev_trig_work kernel_eth0_wrapped (netdev_trig_work kernel_eth0 st_linked)) =
       calls (netdev_trig_work kernel_eth0 st_linked) @ [Schedule_delayed_work 26]"
proof -
  have b: "net_dev st_linked = Some 1" by (simp add: st_linked_def)
  have m: "monitorTx st_linked \<or> monitorRx st_linked" by (simp add: st_linked_flags)
  have c1: "counter_sum st_linked (dev_get_stats kernel_eth0 d) = 5" for d
    by (simp add: counter_sum_def st_linked_flags dev_get_stats_def kernel_eth0_def)
  have c2: "counter_sum st_linked (dev_get_stats kernel_eth0_wrapped d) = 5 + 2 ^ 32" for d
    by (simp add: counter_sum_def st_linked_flags dev_get_stats_def kernel_eth0_def
        kernel_eth0_wrapped_def)
  have i: "interval st_linked = 13" by (simp add: st_linked_def)
  from C10_activity_modulo_2_32 [of st_linked "dev_get_stats kernel_eth0_wrapped 1" 1
      kernel_eth0_wrapped kernel_eth0]
  show ?thesis
    by (simp add: b m c1 c2 i)
qed

end
